theory Spec2Isabelle
  imports
    Main
    "HOL-Library.Word"
    "HOL-Library.Char_ord"
    "HOL-Library.List_Lexorder"
    "HOL-Library.Monad_Syntax"
begin

unbundle bit_operations_syntax

section \<open>Go values\<close>

text \<open>
  The package \<^verbatim>\<open>bigcommerce\<close> (file \<^verbatim>\<open>orders.go\<close>) declares data transfer structs and
  five methods of \<^verbatim>\<open>OrderService\<close>. What a method sends is decided by the struct tags of
  its argument and by the libraries that read them through reflection
  (\<^verbatim>\<open>encoding/json\<close>, \<^verbatim>\<open>github.com/google/go-querystring/query\<close>,
  \<^verbatim>\<open>github.com/dghubble/sling\<close>). The structs are records below; a reflected
  value \<open>gval\<close> carries what the libraries see of a struct: its fields in declaration
  order, each with the name and the \<^verbatim>\<open>omitempty\<close> option of its tag.

  \<^verbatim>\<open>int32\<close> and \<^verbatim>\<open>uint32\<close> are 32-bit words. A \<^verbatim>\<open>float32\<close> is kept as its IEEE 754
  bit pattern: the code never computes with one, it only tests it against zero and
  prints it.
\<close>

type_synonym int32 = "32 word"
type_synonym uint32 = "32 word"
type_synonym float32 = "32 word"

definition f32_is_zero :: "float32 \<Rightarrow> bool" where
  \<comment> \<open>\<^verbatim>\<open>v.Float() == 0\<close>: true of both signed zeros, every bit but the sign is clear.\<close>
  "f32_is_zero f = (f AND 0x7FFFFFFF = 0)"

definition f32_finite :: "float32 \<Rightarrow> bool" where
  \<comment> \<open>Neither an infinity nor a NaN: the exponent is not all ones.\<close>
  "f32_finite f = (f AND 0x7F800000 \<noteq> 0x7F800000)"

subsection \<open>Decimal text of integers\<close>

definition digit_char :: "nat \<Rightarrow> char" where
  "digit_char d = ''0123456789'' ! (d mod 10)"

fun dec_nat :: "nat \<Rightarrow> string" where
  "dec_nat n = (if n < 10 then [digit_char n] else dec_nat (n div 10) @ [digit_char (n mod 10)])"

declare dec_nat.simps [simp del]

definition Sprintf_d :: "int \<Rightarrow> string" where
  \<comment> \<open>\<^verbatim>\<open>fmt.Sprintf("%d", i)\<close>, also what \<^verbatim>\<open>fmt.Sprint\<close> prints for an integer.\<close>
  "Sprintf_d i = (if i < 0 then CHR ''-'' # dec_nat (nat (- i)) else dec_nat (nat i))"

definition digit_val :: "char \<Rightarrow> nat option" where
  "digit_val c =
     (if CHR ''0'' \<le> c \<and> c \<le> CHR ''9'' then Some (of_char c - 48) else None)"

fun digits_val :: "nat \<Rightarrow> string \<Rightarrow> nat option" where
  "digits_val acc [] = Some acc"
| "digits_val acc (c # cs) =
     (case digit_val c of None \<Rightarrow> None | Some d \<Rightarrow> digits_val (10 * acc + d) cs)"

definition ParseInt :: "string \<Rightarrow> int option" where
  \<comment> \<open>\<^verbatim>\<open>strconv.ParseInt(s, 10, _)\<close> before its range check: a sign, then digits only.\<close>
  "ParseInt s =
     (case s of
        [] \<Rightarrow> None
      | c # cs \<Rightarrow>
          if c = CHR ''-'' then (if cs = [] then None else map_option (\<lambda>n. - int n) (digits_val 0 cs))
          else if c = CHR ''+'' then (if cs = [] then None else map_option int (digits_val 0 cs))
          else map_option int (digits_val 0 s))"

subsection \<open>JSON documents\<close>

text \<open>
  A JSON document as a tree; \<open>'n\<close> is what a number token holds. A request body holds
  the Go numbers that were encoded (\<open>gnum\<close>: the text of a \<^verbatim>\<open>float32\<close> is not computed
  here); a response body holds the token's text, which the decoder parses.
\<close>

datatype 'n json =
    JNull
  | JBool bool
  | JNum 'n
  | JStr string
  | JArr "'n json list"
  | JObj "(string \<times> 'n json) list"

datatype gnum = NInt int | NFloat float32

subsection \<open>Reflected values\<close>

datatype gval =
    GInt int
  | GUint nat
  | GFloat32 float32
  | GString string
  | GPtr "gval option"
  | GSlice "gval list option"
  | GStruct "gfield list"
and gfield = Field string bool gval

text \<open>
  \<open>GPtr None\<close> is a nil pointer and \<open>GSlice None\<close> a nil slice. \<open>Field name omit v\<close>
  is a struct field whose tag is \<^verbatim>\<open>"name"\<close> (\<open>omit = False\<close>) or
  \<^verbatim>\<open>"name,omitempty"\<close> (\<open>omit = True\<close>).
\<close>

fun isEmptyValue :: "gval \<Rightarrow> bool" where
  \<comment> \<open>The test behind \<^verbatim>\<open>omitempty\<close>, the same in \<^verbatim>\<open>encoding/json\<close> and
      \<^verbatim>\<open>go-querystring\<close> for these kinds: false, 0, a nil pointer, a string or slice
      of length 0. A struct is never empty.\<close>
  "isEmptyValue (GInt i) = (i = 0)"
| "isEmptyValue (GUint n) = (n = 0)"
| "isEmptyValue (GFloat32 f) = f32_is_zero f"
| "isEmptyValue (GString s) = (length s = 0)"
| "isEmptyValue (GPtr p) = (p = None)"
| "isEmptyValue (GSlice None) = True"
| "isEmptyValue (GSlice (Some vs)) = (length vs = 0)"
| "isEmptyValue (GStruct fs) = False"

subsection \<open>encoding/json: Marshal\<close>

text \<open>
  \<^verbatim>\<open>json.Marshal\<close> on the kinds above. \<open>None\<close> is its only error here,
  \<^verbatim>\<open>UnsupportedValueError\<close> for a float that is an infinity or a NaN. A struct is
  written as an object of its fields in declaration order, leaving out a field
  tagged \<^verbatim>\<open>omitempty\<close> whose value is empty; a nil pointer and a nil slice are
  written \<^verbatim>\<open>null\<close>. A string is kept byte for byte: that the encoder writes U+FFFD for
  bytes that are not valid UTF-8 is not modelled.
\<close>

fun marshal :: "gval \<Rightarrow> gnum json option"
  and marshal_elems :: "gval list \<Rightarrow> gnum json list option"
  and marshal_fields :: "gfield list \<Rightarrow> (string \<times> gnum json) list option"
where
  "marshal (GInt i) = Some (JNum (NInt i))"
| "marshal (GUint n) = Some (JNum (NInt (int n)))"
| "marshal (GFloat32 f) = (if f32_finite f then Some (JNum (NFloat f)) else None)"
| "marshal (GString s) = Some (JStr s)"
| "marshal (GPtr None) = Some JNull"
| "marshal (GPtr (Some v)) = marshal v"
| "marshal (GSlice None) = Some JNull"
| "marshal (GSlice (Some vs)) = map_option JArr (marshal_elems vs)"
| "marshal (GStruct fs) = map_option JObj (marshal_fields fs)"
| "marshal_elems [] = Some []"
| "marshal_elems (v # vs) =
     (case marshal v of
        None \<Rightarrow> None
      | Some j \<Rightarrow> map_option ((#) j) (marshal_elems vs))"
| "marshal_fields [] = Some []"
| "marshal_fields (Field name omit v # fs) =
     (if omit \<and> isEmptyValue v then marshal_fields fs
      else case marshal v of
             None \<Rightarrow> None
           | Some j \<Rightarrow> map_option ((#) (name, j)) (marshal_fields fs))"

subsection \<open>go-querystring: Values\<close>

text \<open>
  A query value is text. \<open>QSprint v\<close> stands for the text \<^verbatim>\<open>fmt.Sprint\<close> prints for a
  value whose text is not computed here (a float, a composite).
\<close>

datatype qvalue = QText string | QSprint gval

fun valueString :: "gval \<Rightarrow> qvalue" where
  "valueString (GPtr None) = QText []"
| "valueString (GPtr (Some v)) = valueString v"
| "valueString (GInt i) = QText (Sprintf_d i)"
| "valueString (GUint n) = QText (dec_nat n)"
| "valueString (GString s) = QText s"
| "valueString v = QSprint v"

definition scoped :: "string \<Rightarrow> string \<Rightarrow> string" where
  "scoped scope name = (if scope = [] then name else scope @ ''['' @ name @ '']'')"

text \<open>
  \<^verbatim>\<open>reflectValue\<close> walks the fields: one tagged \<^verbatim>\<open>omitempty\<close> with an empty value is
  skipped; a slice adds one value per element; otherwise pointers are followed to the
  first nil or non-pointer, a struct found there is walked with the field's name as
  scope, and anything else adds its \<open>valueString\<close>.
\<close>

fun reflectValue :: "string \<Rightarrow> gfield list \<Rightarrow> (string \<times> qvalue) list"
  and addField :: "string \<Rightarrow> gval \<Rightarrow> (string \<times> qvalue) list"
  and addDeref :: "string \<Rightarrow> gval \<Rightarrow> (string \<times> qvalue) list"
where
  "reflectValue scope [] = []"
| "reflectValue scope (Field tag omit sv # fs) =
     (if omit \<and> isEmptyValue sv then [] else addField (scoped scope tag) sv)
     @ reflectValue scope fs"
| "addField name (GSlice None) = []"
| "addField name (GSlice (Some vs)) = map (\<lambda>e. (name, valueString e)) vs"
| "addField name sv = addDeref name sv"
| "addDeref name (GPtr (Some v)) = addDeref name v"
| "addDeref name (GStruct gs) = reflectValue name gs"
| "addDeref name v = [(name, valueString v)]"

fun Values :: "gval \<Rightarrow> (string \<times> qvalue) list option" where
  \<comment> \<open>\<^verbatim>\<open>query.Values\<close>: a nil pointer gives no values; anything but a struct behind the
      pointers is the error "expects struct input".\<close>
  "Values (GPtr None) = Some []"
| "Values (GPtr (Some v)) = Values v"
| "Values (GStruct fs) = Some (reflectValue [] fs)"
| "Values v = None"

section \<open>The structs of orders.go\<close>

text \<open>
  \<^verbatim>\<open>AddressEntity\<close> (and its slice \<^verbatim>\<open>AddressEntities\<close>) is declared in another file of
  the package. It is the type parameter \<open>'a\<close> of the records that embed it; what the
  libraries do with one is a parameter too (\<open>env\<close> below).
\<close>

record 'a Order =
  ID :: int32
  CustomerID :: int32
  DateCreated :: string
  DateModified :: string
  DateShipped :: string
  StatusID :: int32
  Status :: string
  HandlingCostExTax :: string
  HandlingCostIncTax :: string
  HandlingCostTax :: string
  ShippingCostExTax :: string
  ShippingCostIncTax :: string
  ShippingCostTax :: string
  SubTotalExTax :: string
  SubTotalIncTax :: string
  SubTotalTax :: string
  TotalExTax :: string
  TotalIncTax :: string
  TotalTax :: string
  BaseShippingCost :: string
  ItemsTotal :: int32
  PaymentMethod :: string
  PaymentStatus :: string
  IPAddress :: string
  CurrencyID :: int32
  CurrencyCode :: string
  StaffNotes :: string
  CustomerMessage :: string
  DiscountAmount :: string
  CouponDiscount :: string
  ShippingAddressCount :: int32
  BillingAddress :: 'a

record OrderListParams =
  Page :: int32
  Limit :: int32
  Sort :: string
  MinID :: int32
  MaxID :: int32
  MinTotal :: float32
  MaxTotal :: float32
  CustomerID :: "uint32 option"
  Email :: string
  StatusID :: "uint32 option"
  PaymentMethod :: string

record OrderProduct =
  ProductID :: int32
  ProductName :: string
  Quantity :: int32
  PriceIncTax :: float32
  PriceExTax :: float32

record 'a OrderBody =
  ExternalSource :: string
  CustomerID :: "uint32 option"
  StatusID :: "uint32 option"
  BillingAddress :: 'a
  Products :: "OrderProduct list option"
  ShippingCostIncTax :: float32
  ShippingCostExTax :: float32
  HandlingCostIncTax :: float32
  HandlingCostExTax :: float32
  ShippingAddresses :: "'a list option"
  CustomerMessage :: string
  StaffNotes :: string

record 'a OrderEditParams =
  CustomerID :: "uint32 option"
  StatusID :: "uint32 option"
  IPAddress :: string
  StaffNotes :: string
  CustomerMessage :: string
  BillingAddress :: 'a

text \<open>
  A pointer field is an \<open>option\<close> (\<open>None\<close> is nil), and so is a slice (\<open>None\<close> is the
  nil slice, \<open>Some []\<close> an empty one).
\<close>

subsection \<open>Requests, responses and the parameters of the model\<close>

record Request =
  req_method :: string
  req_url :: string
  req_query :: "(string \<times> qvalue) list"
  req_header :: "(string \<times> string list) list"
  req_body :: "gnum json option"

record Response =
  StatusCode :: int
  resp_body :: "string json option"

text \<open>
  A response carries its body as the JSON document it parses to, \<open>None\<close> when it does
  not parse.

  \<open>env\<close> holds what the file takes from outside: for \<^verbatim>\<open>AddressEntity\<close> its zero value,
  its fields as the libraries reflect them (it is a struct) and how a JSON value is
  decoded into one (the new value, and whether decoding succeeded); and \<open>transport\<close>,
  the outcome of handing a request to an HTTP client under a request context, given
  every request sent so far (the last one is the request at hand): a transport
  failure or a response.
\<close>

type_synonym Client = nat
type_synonym Ctx = nat

record 'a env =
  addr_zero :: 'a
  addr_reflect :: "'a \<Rightarrow> gfield list"
  addr_decode :: "string json \<Rightarrow> 'a \<Rightarrow> 'a \<times> bool"
  transport :: "Client \<Rightarrow> Ctx \<Rightarrow> Request list \<Rightarrow> string + Response"

subsection \<open>The structs as the libraries reflect them\<close>

definition uint32_ptr :: "uint32 option \<Rightarrow> gval" where
  "uint32_ptr p = GPtr (map_option (\<lambda>u. GUint (unat u)) p)"

definition reflect_OrderListParams :: "OrderListParams \<Rightarrow> gval" where
  "reflect_OrderListParams p = GStruct
     [Field ''page'' True (GInt (sint (Page p))),
      Field ''limit'' True (GInt (sint (Limit p))),
      Field ''sort'' True (GString (Sort p)),
      Field ''min_id'' True (GInt (sint (MinID p))),
      Field ''max_id'' True (GInt (sint (MaxID p))),
      Field ''min_total'' True (GFloat32 (MinTotal p)),
      Field ''max_total'' True (GFloat32 (MaxTotal p)),
      Field ''customer_id'' True (uint32_ptr (OrderListParams.CustomerID p)),
      Field ''email'' True (GString (Email p)),
      Field ''status_id'' True (uint32_ptr (OrderListParams.StatusID p)),
      Field ''payment_method'' True (GString (OrderListParams.PaymentMethod p))]"

definition reflect_OrderProduct :: "OrderProduct \<Rightarrow> gval" where
  "reflect_OrderProduct p = GStruct
     [Field ''product_id'' True (GInt (sint (ProductID p))),
      Field ''name'' True (GString (ProductName p)),
      Field ''quantity'' False (GInt (sint (Quantity p))),
      Field ''price_inc_tax'' True (GFloat32 (PriceIncTax p)),
      Field ''price_ex_tax'' True (GFloat32 (PriceExTax p))]"

definition reflect_OrderBody :: "'a env \<Rightarrow> 'a OrderBody \<Rightarrow> gval" where
  "reflect_OrderBody E b = GStruct
     [Field ''external_source'' False (GString (ExternalSource b)),
      Field ''customer_id'' False (uint32_ptr (OrderBody.CustomerID b)),
      Field ''status_id'' False (uint32_ptr (OrderBody.StatusID b)),
      Field ''billing_address'' False (GStruct (addr_reflect E (OrderBody.BillingAddress b))),
      Field ''products'' False (GSlice (map_option (map reflect_OrderProduct) (Products b))),
      Field ''shipping_cost_inc_tax'' True (GFloat32 (OrderBody.ShippingCostIncTax b)),
      Field ''shipping_cost_ex_tax'' True (GFloat32 (OrderBody.ShippingCostExTax b)),
      Field ''handling_cost_inc_tax'' True (GFloat32 (OrderBody.HandlingCostIncTax b)),
      Field ''handling_cost_ex_tax'' True (GFloat32 (OrderBody.HandlingCostExTax b)),
      Field ''shipping_addresses'' True
        (GSlice (map_option (map (\<lambda>a. GStruct (addr_reflect E a))) (ShippingAddresses b))),
      Field ''customer_message'' False (GString (OrderBody.CustomerMessage b)),
      Field ''staff_notes'' False (GString (OrderBody.StaffNotes b))]"

definition reflect_OrderEditParams :: "'a env \<Rightarrow> 'a OrderEditParams \<Rightarrow> gval" where
  "reflect_OrderEditParams E p = GStruct
     [Field ''customer_id'' True (uint32_ptr (OrderEditParams.CustomerID p)),
      Field ''status_id'' True (uint32_ptr (OrderEditParams.StatusID p)),
      Field ''ip_address'' True (GString (OrderEditParams.IPAddress p)),
      Field ''staff_notes'' True (GString (OrderEditParams.StaffNotes p)),
      Field ''customer_message'' True (GString (OrderEditParams.CustomerMessage p)),
      Field ''billing_address'' True (GStruct (addr_reflect E (OrderEditParams.BillingAddress p)))]"

section \<open>encoding/json: decoding a response into an Order\<close>

text \<open>
  The decoder takes the members of a JSON object in document order. A member's name
  selects the struct field whose tag equals it, or else the first field whose tag
  equals it under case folding; a member that selects no field is skipped. Folding
  makes ASCII letters upper case and reads the Kelvin sign (bytes E2 84 AA) as K and
  the long s (bytes C5 BF) as S, the only characters outside ASCII that fold to an
  ASCII letter; every other byte stays.
\<close>

definition upper_ascii :: "char \<Rightarrow> char" where
  "upper_ascii c =
     (if CHR ''a'' \<le> c \<and> c \<le> CHR ''z'' then char_of (of_char c - (32::nat)) else c)"

fun foldName :: "string \<Rightarrow> string" where
  "foldName (c1 # c2 # c3 # cs) =
     (if c1 = CHR 0xE2 \<and> c2 = CHR 0x84 \<and> c3 = CHR 0xAA then CHR ''K'' # foldName cs
      else if c1 = CHR 0xC5 \<and> c2 = CHR 0xBF then CHR ''S'' # foldName (c3 # cs)
      else upper_ascii c1 # foldName (c2 # c3 # cs))"
| "foldName [c1, c2] =
     (if c1 = CHR 0xC5 \<and> c2 = CHR 0xBF then [CHR ''S'']
      else [upper_ascii c1, upper_ascii c2])"
| "foldName [c] = [upper_ascii c]"
| "foldName [] = []"

definition find_field :: "(string \<times> 's) list \<Rightarrow> string \<Rightarrow> 's option" where
  "find_field tbl key =
     (case map_of tbl key of
        Some f \<Rightarrow> Some f
      | None \<Rightarrow> map_option snd (find (\<lambda>e. foldName (fst e) = foldName key) tbl))"

text \<open>
  Decoding one JSON value into a field of a scalar kind stores a value, leaves the
  field as it is (\<^verbatim>\<open>null\<close>), or reports an \<^verbatim>\<open>UnmarshalTypeError\<close> and leaves the field
  as it is.
\<close>

datatype 'v decoded = Store 'v | Keep | Mismatch

fun decode_string :: "string json \<Rightarrow> string decoded" where
  "decode_string (JStr s) = Store s"
| "decode_string JNull = Keep"
| "decode_string j = Mismatch"

fun decode_int :: "nat \<Rightarrow> string json \<Rightarrow> int decoded" where
  \<comment> \<open>A signed integer kind of the given width: the token must be an integer in range.\<close>
  "decode_int bits (JNum lit) =
     (case ParseInt lit of
        None \<Rightarrow> Mismatch
      | Some i \<Rightarrow> if - (2 ^ (bits - 1)) \<le> i \<and> i < 2 ^ (bits - 1) then Store i else Mismatch)"
| "decode_int bits JNull = Keep"
| "decode_int bits j = Mismatch"

datatype 'a Order_field =
    Int32Field "int32 \<Rightarrow> 'a Order \<Rightarrow> 'a Order"
  | StringField "string \<Rightarrow> 'a Order \<Rightarrow> 'a Order"
  | AddressField "'a Order \<Rightarrow> 'a" "'a \<Rightarrow> 'a Order \<Rightarrow> 'a Order"

definition Order_fields :: "(string \<times> 'a Order_field) list" where
  \<comment> \<open>The json tags of \<^verbatim>\<open>Order\<close>, in declaration order, each with the field it names.\<close>
  "Order_fields =
     [(''id'', Int32Field (\<lambda>v r. r\<lparr>Order.ID := v\<rparr>)),
      (''customer_id'', Int32Field (\<lambda>v r. r\<lparr>Order.CustomerID := v\<rparr>)),
      (''date_created'', StringField (\<lambda>v r. r\<lparr>DateCreated := v\<rparr>)),
      (''date_modified'', StringField (\<lambda>v r. r\<lparr>DateModified := v\<rparr>)),
      (''date_shipped'', StringField (\<lambda>v r. r\<lparr>DateShipped := v\<rparr>)),
      (''status_id'', Int32Field (\<lambda>v r. r\<lparr>Order.StatusID := v\<rparr>)),
      (''status'', StringField (\<lambda>v r. r\<lparr>Status := v\<rparr>)),
      (''handling_cost_ex_tax'', StringField (\<lambda>v r. r\<lparr>Order.HandlingCostExTax := v\<rparr>)),
      (''handling_cost_inc_tax'', StringField (\<lambda>v r. r\<lparr>Order.HandlingCostIncTax := v\<rparr>)),
      (''handling_cost_tax'', StringField (\<lambda>v r. r\<lparr>HandlingCostTax := v\<rparr>)),
      (''shipping_cost_ex_tax'', StringField (\<lambda>v r. r\<lparr>Order.ShippingCostExTax := v\<rparr>)),
      (''shipping_cost_inc_tax'', StringField (\<lambda>v r. r\<lparr>Order.ShippingCostIncTax := v\<rparr>)),
      (''shipping_cost_tax'', StringField (\<lambda>v r. r\<lparr>ShippingCostTax := v\<rparr>)),
      (''subtotal_ex_tax'', StringField (\<lambda>v r. r\<lparr>SubTotalExTax := v\<rparr>)),
      (''subtotal_inc_tax'', StringField (\<lambda>v r. r\<lparr>SubTotalIncTax := v\<rparr>)),
      (''subtotal_tax'', StringField (\<lambda>v r. r\<lparr>SubTotalTax := v\<rparr>)),
      (''total_ex_tax'', StringField (\<lambda>v r. r\<lparr>TotalExTax := v\<rparr>)),
      (''total_inc_tax'', StringField (\<lambda>v r. r\<lparr>TotalIncTax := v\<rparr>)),
      (''total_tax'', StringField (\<lambda>v r. r\<lparr>TotalTax := v\<rparr>)),
      (''base_shipping_cost'', StringField (\<lambda>v r. r\<lparr>BaseShippingCost := v\<rparr>)),
      (''items_total'', Int32Field (\<lambda>v r. r\<lparr>ItemsTotal := v\<rparr>)),
      (''payment_method'', StringField (\<lambda>v r. r\<lparr>Order.PaymentMethod := v\<rparr>)),
      (''payment_status'', StringField (\<lambda>v r. r\<lparr>PaymentStatus := v\<rparr>)),
      (''ip_address'', StringField (\<lambda>v r. r\<lparr>Order.IPAddress := v\<rparr>)),
      (''currency_id'', Int32Field (\<lambda>v r. r\<lparr>CurrencyID := v\<rparr>)),
      (''currency_code'', StringField (\<lambda>v r. r\<lparr>CurrencyCode := v\<rparr>)),
      (''staff_notes'', StringField (\<lambda>v r. r\<lparr>Order.StaffNotes := v\<rparr>)),
      (''customer_message'', StringField (\<lambda>v r. r\<lparr>Order.CustomerMessage := v\<rparr>)),
      (''discount_amount'', StringField (\<lambda>v r. r\<lparr>DiscountAmount := v\<rparr>)),
      (''counpon_discount'', StringField (\<lambda>v r. r\<lparr>CouponDiscount := v\<rparr>)),
      (''shipping_address_count'', Int32Field (\<lambda>v r. r\<lparr>ShippingAddressCount := v\<rparr>)),
      (''billing_address'',
         AddressField Order.BillingAddress (\<lambda>v r. r\<lparr>Order.BillingAddress := v\<rparr>))]"

fun assign :: "'a env \<Rightarrow> 'a Order_field \<Rightarrow> string json \<Rightarrow> 'a Order \<Rightarrow> 'a Order \<times> bool" where
  \<comment> \<open>The order after decoding a value into the field, and whether that raised no error.\<close>
  "assign E (Int32Field put) j r =
     (case decode_int 32 j of
        Store i \<Rightarrow> (put (word_of_int i) r, True)
      | Keep \<Rightarrow> (r, True)
      | Mismatch \<Rightarrow> (r, False))"
| "assign E (StringField put) j r =
     (case decode_string j of
        Store s \<Rightarrow> (put s r, True)
      | Keep \<Rightarrow> (r, True)
      | Mismatch \<Rightarrow> (r, False))"
| "assign E (AddressField get put) j r =
     (case addr_decode E j (get r) of (a, ok) \<Rightarrow> (put a r, ok))"

fun decode_members :: "'a env \<Rightarrow> (string \<times> string json) list \<Rightarrow> 'a Order \<Rightarrow> 'a Order \<times> bool" where
  \<comment> \<open>An error is recorded and decoding goes on with the next member.\<close>
  "decode_members E [] r = (r, True)"
| "decode_members E ((k, v) # ms) r =
     (case find_field Order_fields k of
        None \<Rightarrow> decode_members E ms r
      | Some f \<Rightarrow>
          (case assign E f v r of
             (r1, ok1) \<Rightarrow> (case decode_members E ms r1 of (r2, ok2) \<Rightarrow> (r2, ok1 \<and> ok2))))"

fun Unmarshal_Order :: "'a env \<Rightarrow> string json \<Rightarrow> 'a Order \<Rightarrow> 'a Order \<times> bool" where
  "Unmarshal_Order E (JObj ms) r = decode_members E ms r"
| "Unmarshal_Order E JNull r = (r, True)"
| "Unmarshal_Order E j r = (r, False)"

definition new_Order :: "'a env \<Rightarrow> 'a Order" where
  \<comment> \<open>\<^verbatim>\<open>new(Order)\<close>: every field at its zero value.\<close>
  "new_Order E =
     \<lparr>Order.ID = 0, Order.CustomerID = 0, DateCreated = [], DateModified = [],
      DateShipped = [], Order.StatusID = 0, Status = [],
      Order.HandlingCostExTax = [], Order.HandlingCostIncTax = [], HandlingCostTax = [],
      Order.ShippingCostExTax = [], Order.ShippingCostIncTax = [], ShippingCostTax = [],
      SubTotalExTax = [], SubTotalIncTax = [], SubTotalTax = [],
      TotalExTax = [], TotalIncTax = [], TotalTax = [], BaseShippingCost = [],
      ItemsTotal = 0, Order.PaymentMethod = [], PaymentStatus = [], Order.IPAddress = [],
      CurrencyID = 0, CurrencyCode = [], Order.StaffNotes = [], Order.CustomerMessage = [],
      DiscountAmount = [], CouponDiscount = [], ShippingAddressCount = 0,
      Order.BillingAddress = addr_zero E\<rparr>"

fun Unmarshal_elems :: "'a env \<Rightarrow> string json list \<Rightarrow> 'a Order list \<times> bool" where
  "Unmarshal_elems E [] = ([], True)"
| "Unmarshal_elems E (j # js) =
     (case Unmarshal_Order E j (new_Order E) of
        (r, ok1) \<Rightarrow> (case Unmarshal_elems E js of (rs, ok2) \<Rightarrow> (r # rs, ok1 \<and> ok2)))"

fun Unmarshal_Orders ::
  "'a env \<Rightarrow> string json \<Rightarrow> 'a Order list option \<Rightarrow> 'a Order list option \<times> bool" where
  \<comment> \<open>Into a nil \<^verbatim>\<open>Orders\<close>: an array appends one order per element, each decoded into
      a zero \<^verbatim>\<open>Order\<close>; \<^verbatim>\<open>null\<close> sets the slice to nil.\<close>
  "Unmarshal_Orders E (JArr js) cur = (case Unmarshal_elems E js of (rs, ok) \<Rightarrow> (Some rs, ok))"
| "Unmarshal_Orders E JNull cur = (None, True)"
| "Unmarshal_Orders E j cur = (cur, False)"

section \<open>Types of the package that orders.go uses and does not declare\<close>

text \<open>
  Modelled from the spec: \<^verbatim>\<open>Count\<close> is declared in another file of the package. The
  spec calls it "a wrapper type holding an integer result count for list-style
  queries"; the model is a struct of one integer, read from the member \<^verbatim>\<open>count\<close>.
\<close>

record Count =
  Count :: int

fun Unmarshal_Count_members :: "(string \<times> string json) list \<Rightarrow> Count \<Rightarrow> Count \<times> bool" where
  "Unmarshal_Count_members [] c = (c, True)"
| "Unmarshal_Count_members ((k, v) # ms) c =
     (if foldName k = foldName ''count'' then
        (case decode_int 64 v of
           Store i \<Rightarrow> Unmarshal_Count_members ms (c\<lparr>Count := i\<rparr>)
         | Keep \<Rightarrow> Unmarshal_Count_members ms c
         | Mismatch \<Rightarrow> (fst (Unmarshal_Count_members ms c), False))
      else Unmarshal_Count_members ms c)"

fun Unmarshal_Count :: "string json \<Rightarrow> Count \<Rightarrow> Count \<times> bool" where
  "Unmarshal_Count (JObj ms) c = Unmarshal_Count_members ms c"
| "Unmarshal_Count JNull c = (c, True)"
| "Unmarshal_Count j c = (c, False)"

text \<open>
  Modelled from the spec: \<^verbatim>\<open>APIError\<close> is declared in another file of the package. The
  spec calls it the "structured error payload returned by the platform API on
  failure", which can be empty; the model keeps the members of the error body, the
  zero value has none, and \<open>Empty\<close> says so.
\<close>

datatype APIError = APIError "(string \<times> string json) list"

fun Empty :: "APIError \<Rightarrow> bool" where
  "Empty (APIError ms) = (ms = [])"

fun Unmarshal_APIError :: "string json \<Rightarrow> APIError \<Rightarrow> APIError \<times> bool" where
  "Unmarshal_APIError (JObj ms) a = (APIError ms, True)"
| "Unmarshal_APIError JNull a = (a, True)"
| "Unmarshal_APIError j a = (a, False)"

text \<open>The Go error values a method returns: a failure of the round trip, or the API's error.\<close>

datatype cause = Unsendable | Network string | Malformed

datatype error = Transport cause | APIFailure APIError

section \<open>The store\<close>

text \<open>
  Go objects that are reached through pointers live in a store, so that two pointers
  to one object see each other's writes. \<open>Ref a\<close> points to the object at address
  \<open>a\<close>; slings and the values made by \<^verbatim>\<open>new\<close> have an address space each. Nothing is ever
  freed. \<open>wire\<close> lists the requests handed to the HTTP client, oldest first.
\<close>

datatype ref = Nil | Ref nat

record Sling =
  verb :: string
  rawURL :: string
  header :: "(string \<times> string list) list"
  queryStructs :: "gval list"
  bodyProvider :: "gval option"

datatype 'a payload =
    POrders "'a Order list option"
  | PCount Count
  | POrder "'a Order"
  | PAPIError APIError

record 'a world =
  slings :: "Sling list"
  cells :: "'a payload list"
  wire :: "Request list"

definition sling_at :: "'a world \<Rightarrow> ref \<Rightarrow> Sling option" where
  \<comment> \<open>\<open>None\<close>: the dereference panics (a nil pointer).\<close>
  "sling_at w r =
     (case r of Nil \<Rightarrow> None | Ref a \<Rightarrow> if a < length (slings w) then Some (slings w ! a) else None)"

definition cell_at :: "'a world \<Rightarrow> ref \<Rightarrow> 'a payload option" where
  "cell_at w r =
     (case r of Nil \<Rightarrow> None | Ref a \<Rightarrow> if a < length (cells w) then Some (cells w ! a) else None)"

definition new_cell :: "'a payload \<Rightarrow> 'a world \<Rightarrow> ref \<times> 'a world" where
  \<comment> \<open>\<^verbatim>\<open>new(T)\<close>: a pointer to a fresh object holding the zero value given.\<close>
  "new_cell v w = (Ref (length (cells w)), w\<lparr>cells := cells w @ [v]\<rparr>)"

section \<open>github.com/dghubble/sling\<close>

text \<open>
  A \<^verbatim>\<open>*Sling\<close> holds the properties of a request to build: the method (\<open>verb\<close>), the
  URL, headers, the structs to encode into the query and the value to send as body.
  Every setter writes to the sling it is called on and returns that same pointer;
  only \<^verbatim>\<open>New\<close> makes a copy.

  \<open>ResolveReference\<close> is \<^verbatim>\<open>url.Parse\<close> of both texts, \<^verbatim>\<open>ResolveReference\<close> and
  \<^verbatim>\<open>String\<close>, for what this file passes: a base without query or fragment whose path
  has a slash, and a reference that is empty or a relative path without dot segments
  (\<^verbatim>\<open>"orders/"\<close>, \<^verbatim>\<open>"count"\<close>, the decimal text of an id). An empty reference gives the
  base; any other replaces what follows the last slash of the base.
\<close>

definition dir_of :: "string \<Rightarrow> string" where
  "dir_of u = rev (dropWhile (\<lambda>c. c \<noteq> CHR ''/'') (rev u))"

definition ResolveReference :: "string \<Rightarrow> string \<Rightarrow> string" where
  "ResolveReference base r = (if r = [] then base else dir_of base @ r)"

definition set_Path :: "string \<Rightarrow> Sling \<Rightarrow> Sling" where
  "set_Path p s = s\<lparr>rawURL := ResolveReference (rawURL s) p\<rparr>"

definition set_verb :: "string \<Rightarrow> string \<Rightarrow> Sling \<Rightarrow> Sling" where
  \<comment> \<open>\<^verbatim>\<open>s.method = m; return s.Path(pathURL)\<close>, the body of \<^verbatim>\<open>Get\<close>, \<^verbatim>\<open>Post\<close> and \<^verbatim>\<open>Put\<close>.\<close>
  "set_verb m p s = set_Path p (s\<lparr>verb := m\<rparr>)"

definition header_Set :: "string \<Rightarrow> string \<Rightarrow> (string \<times> string list) list \<Rightarrow> (string \<times> string list) list" where
  "header_Set k v h = filter (\<lambda>e. fst e \<noteq> k) h @ [(k, [v])]"

definition add_QueryStruct :: "gval \<Rightarrow> Sling \<Rightarrow> Sling" where
  \<comment> \<open>The argument is a typed pointer in an interface, never a nil interface: it is
      appended also when the pointer is nil. The sling keeps the pointer; the model keeps
      what it points to at the call, the same as long as the caller does not write to
      the params afterwards.\<close>
  "add_QueryStruct q s = s\<lparr>queryStructs := queryStructs s @ [q]\<rparr>"

definition set_BodyJSON :: "gval \<Rightarrow> Sling \<Rightarrow> Sling" where
  "set_BodyJSON b s =
     s\<lparr>bodyProvider := Some b,
       header := header_Set ''Content-Type'' ''application/json'' (header s)\<rparr>"

definition Sling_New :: "ref \<Rightarrow> 'a world \<Rightarrow> (ref \<times> 'a world) option" where
  \<comment> \<open>A new sling with a copy of every property of the receiver.\<close>
  "Sling_New r w =
     (case sling_at w r of
        None \<Rightarrow> None
      | Some s \<Rightarrow> Some (Ref (length (slings w)), w\<lparr>slings := slings w @ [s]\<rparr>))"

definition sling_write :: "(Sling \<Rightarrow> Sling) \<Rightarrow> ref \<Rightarrow> 'a world \<Rightarrow> (ref \<times> 'a world) option" where
  \<comment> \<open>A setter: the receiver's object is overwritten in place, the receiver returned.\<close>
  "sling_write f r w =
     (case r of
        Nil \<Rightarrow> None
      | Ref a \<Rightarrow>
          (case sling_at w r of
             None \<Rightarrow> None
           | Some s \<Rightarrow> Some (r, w\<lparr>slings := (slings w)[a := f s]\<rparr>)))"

definition Sling_Path :: "string \<Rightarrow> ref \<Rightarrow> 'a world \<Rightarrow> (ref \<times> 'a world) option" where
  "Sling_Path p = sling_write (set_Path p)"

definition Sling_Get :: "string \<Rightarrow> ref \<Rightarrow> 'a world \<Rightarrow> (ref \<times> 'a world) option" where
  "Sling_Get p = sling_write (set_verb ''GET'' p)"

definition Sling_Post :: "string \<Rightarrow> ref \<Rightarrow> 'a world \<Rightarrow> (ref \<times> 'a world) option" where
  "Sling_Post p = sling_write (set_verb ''POST'' p)"

definition Sling_Put :: "string \<Rightarrow> ref \<Rightarrow> 'a world \<Rightarrow> (ref \<times> 'a world) option" where
  "Sling_Put p = sling_write (set_verb ''PUT'' p)"

definition Sling_QueryStruct :: "gval \<Rightarrow> ref \<Rightarrow> 'a world \<Rightarrow> (ref \<times> 'a world) option" where
  "Sling_QueryStruct q = sling_write (add_QueryStruct q)"

definition Sling_BodyJSON :: "gval \<Rightarrow> ref \<Rightarrow> 'a world \<Rightarrow> (ref \<times> 'a world) option" where
  "Sling_BodyJSON b = sling_write (set_BodyJSON b)"

text \<open>
  \<^verbatim>\<open>Request\<close> builds the request of a sling: the values of every query struct, in the
  order they were added, sorted by key as \<^verbatim>\<open>url.Values.Encode\<close> writes them, and the
  body as JSON. \<open>None\<close> is an error of \<^verbatim>\<open>query.Values\<close> or of \<^verbatim>\<open>json.Marshal\<close>.
\<close>

fun query_values :: "gval list \<Rightarrow> (string \<times> qvalue) list option" where
  "query_values [] = Some []"
| "query_values (q # qs) =
     (case Values q of
        None \<Rightarrow> None
      | Some vs \<Rightarrow> map_option ((@) vs) (query_values qs))"

definition body_of :: "gval option \<Rightarrow> gnum json option option" where
  "body_of b = (case b of None \<Rightarrow> Some None | Some v \<Rightarrow> map_option Some (marshal v))"

definition Sling_Request :: "Sling \<Rightarrow> Request option" where
  "Sling_Request s =
     (case query_values (queryStructs s) of
        None \<Rightarrow> None
      | Some vs \<Rightarrow>
          (case body_of (bodyProvider s) of
             None \<Rightarrow> None
           | Some b \<Rightarrow>
               Some \<lparr>req_method = verb s, req_url = rawURL s, req_query = sort_key fst vs,
                     req_header = header s, req_body = b\<rparr>))"

section \<open>The helpers performRequest and relevantError\<close>

text \<open>
  Modelled from the spec: \<^verbatim>\<open>performRequest\<close> is a function of the package in another
  file. The spec gives its interface, \<^verbatim>\<open>performRequest(ctx, preparedRequest, httpClient,
  successDest, errorDest) -> (response, error)\<close>, "a generic HTTP request executor that
  takes a prepared request, a destination value, and an error-destination value, and
  returns the raw response plus a possibly-wrapped error"; each call "issues exactly
  one blocking request"; "a non-2xx response with a parseable API error body surfaces
  as an API error", "a transport failure (network, timeout, malformed response)
  surfaces as a transport error", and on a non-2xx response "the success destination
  remains a zero value". The model builds the request of the sling, hands it to the
  client, and decodes the body of a 2xx response into the success destination and of
  any other response into the error destination (\<open>decode_into\<close>, by the type of the
  destination: \<open>decode_payload\<close>). A body that does not parse, or does not fit the
  destination, is a transport-level error.
\<close>

fun decode_payload :: "'a env \<Rightarrow> string json \<Rightarrow> 'a payload \<Rightarrow> 'a payload \<times> bool" where
  "decode_payload E j (POrders v) = (case Unmarshal_Orders E j v of (v', ok) \<Rightarrow> (POrders v', ok))"
| "decode_payload E j (PCount c) = (case Unmarshal_Count j c of (c', ok) \<Rightarrow> (PCount c', ok))"
| "decode_payload E j (POrder r) = (case Unmarshal_Order E j r of (r', ok) \<Rightarrow> (POrder r', ok))"
| "decode_payload E j (PAPIError a) = (case Unmarshal_APIError j a of (a', ok) \<Rightarrow> (PAPIError a', ok))"

definition decode_into ::
  "'a env \<Rightarrow> string json \<Rightarrow> ref \<Rightarrow> 'a world \<Rightarrow> (error option \<times> 'a world) option" where
  "decode_into E doc dest w =
     (case dest of
        Nil \<Rightarrow> None
      | Ref a \<Rightarrow>
          (case cell_at w dest of
             None \<Rightarrow> None
           | Some c \<Rightarrow>
               (case decode_payload E doc c of
                  (c', ok) \<Rightarrow>
                    Some (if ok then None else Some (Transport Malformed),
                          w\<lparr>cells := (cells w)[a := c']\<rparr>))))"

definition performRequest ::
  "'a env \<Rightarrow> Ctx \<Rightarrow> ref \<Rightarrow> Client \<Rightarrow> ref \<Rightarrow> ref \<Rightarrow> 'a world
     \<Rightarrow> ((Response option \<times> error option) \<times> 'a world) option" where
  "performRequest E ctx sl client successV failureV w =
     (case sling_at w sl of
        None \<Rightarrow> None
      | Some s \<Rightarrow>
          (case Sling_Request s of
             None \<Rightarrow> Some ((None, Some (Transport Unsendable)), w)
           | Some req \<Rightarrow>
               (let w1 = w\<lparr>wire := wire w @ [req]\<rparr> in
                case transport E client ctx (wire w1) of
                  Inl e \<Rightarrow> Some ((None, Some (Transport (Network e))), w1)
                | Inr resp \<Rightarrow>
                    (case resp_body resp of
                       None \<Rightarrow> Some ((Some resp, Some (Transport Malformed)), w1)
                     | Some doc \<Rightarrow>
                         (case decode_into E doc
                                 (if 200 \<le> StatusCode resp \<and> StatusCode resp \<le> 299
                                  then successV else failureV) w1 of
                            None \<Rightarrow> None
                          | Some (err, w2) \<Rightarrow> Some ((Some resp, err), w2))))))"

text \<open>
  Modelled from the spec: \<^verbatim>\<open>relevantError\<close> is a function of the package in another
  file, \<^verbatim>\<open>relevantError(transportErr, apiErr) -> error\<close>. The spec: it "decides whether a
  transport error or an API-reported error should be surfaced"; a transport-level
  error is "always surfaced, never silently dropped", an API-reported error is
  "surfaced when present even absent a transport failure", "if neither applies,
  returns success with a nil error", and "the selector picks exactly one".
\<close>

definition relevantError :: "error option \<Rightarrow> APIError \<Rightarrow> error option" where
  "relevantError httpError apiError =
     (case httpError of
        Some e \<Rightarrow> Some e
      | None \<Rightarrow> if Empty apiError then None else Some (APIFailure apiError))"

definition apiError_at :: "'a world \<Rightarrow> ref \<Rightarrow> APIError option" where
  \<comment> \<open>\<^verbatim>\<open>*apiError\<close>.\<close>
  "apiError_at w r = (case cell_at w r of Some (PAPIError a) \<Rightarrow> Some a | _ \<Rightarrow> None)"

section \<open>OrderService\<close>

record OrderService =
  sling :: ref
  httpClient :: Client

definition newOrderService :: "ref \<Rightarrow> Client \<Rightarrow> 'a world \<Rightarrow> (OrderService \<times> 'a world) option" where
  "newOrderService sl client w =
     (case Sling_Path ''orders/'' sl w of
        None \<Rightarrow> None
      | Some (p, w1) \<Rightarrow> Some (\<lparr>sling = p, httpClient = client\<rparr>, w1))"

text \<open>
  A method returns its three results and the store after the call; \<open>None\<close> is a panic
  (the service's sling pointer is nil). The arguments of \<^verbatim>\<open>performRequest\<close> are
  evaluated left to right, so the sling expression runs after the two \<^verbatim>\<open>new\<close>.
\<close>

type_synonym 'a result = "((ref \<times> Response option \<times> error option) \<times> 'a world) option"

definition finish :: "ref \<Rightarrow> ref \<Rightarrow> ((Response option \<times> error option) \<times> 'a world) option \<Rightarrow> 'a result" where
  \<comment> \<open>\<^verbatim>\<open>return v, resp, relevantError(err, *apiError)\<close>.\<close>
  "finish v apiError r =
     (case r of
        None \<Rightarrow> None
      | Some ((resp, err), w) \<Rightarrow>
          (case apiError_at w apiError of
             None \<Rightarrow> None
           | Some a \<Rightarrow> Some ((v, resp, relevantError err a), w)))"

definition OrderService_List ::
  "'a env \<Rightarrow> OrderService \<Rightarrow> Ctx \<Rightarrow> OrderListParams option \<Rightarrow> 'a world \<Rightarrow> 'a result" where
  "OrderService_List E s ctx params w0 =
     (case new_cell (POrders None) w0 of (orders, w1) \<Rightarrow>
      case new_cell (PAPIError (APIError [])) w1 of (apiError, w2) \<Rightarrow>
        finish orders apiError
          (do {
             (r, w3) \<leftarrow> Sling_New (sling s) w2;
             (r, w4) \<leftarrow> Sling_QueryStruct (GPtr (map_option reflect_OrderListParams params)) r w3;
             performRequest E ctx r (httpClient s) orders apiError w4
           }))"

definition OrderService_Count ::
  "'a env \<Rightarrow> OrderService \<Rightarrow> Ctx \<Rightarrow> OrderListParams option \<Rightarrow> 'a world \<Rightarrow> 'a result" where
  "OrderService_Count E s ctx params w0 =
     (case new_cell (PCount \<lparr>Count = 0\<rparr>) w0 of (count, w1) \<Rightarrow>
      case new_cell (PAPIError (APIError [])) w1 of (apiError, w2) \<Rightarrow>
        finish count apiError
          (do {
             (r, w3) \<leftarrow> Sling_Get ''count'' (sling s) w2;
             (r, w4) \<leftarrow> Sling_QueryStruct (GPtr (map_option reflect_OrderListParams params)) r w3;
             performRequest E ctx r (httpClient s) count apiError w4
           }))"

definition OrderService_Show ::
  "'a env \<Rightarrow> OrderService \<Rightarrow> Ctx \<Rightarrow> int32 \<Rightarrow> 'a world \<Rightarrow> 'a result" where
  "OrderService_Show E s ctx id' w0 =
     (case new_cell (POrder (new_Order E)) w0 of (order, w1) \<Rightarrow>
      case new_cell (PAPIError (APIError [])) w1 of (apiError, w2) \<Rightarrow>
        finish order apiError
          (do {
             (r, w3) \<leftarrow> Sling_New (sling s) w2;
             (r, w4) \<leftarrow> Sling_Get (Sprintf_d (sint id')) r w3;
             performRequest E ctx r (httpClient s) order apiError w4
           }))"

definition OrderService_New ::
  "'a env \<Rightarrow> OrderService \<Rightarrow> Ctx \<Rightarrow> 'a OrderBody option \<Rightarrow> 'a world \<Rightarrow> 'a result" where
  "OrderService_New E s ctx body w0 =
     (case new_cell (POrder (new_Order E)) w0 of (order, w1) \<Rightarrow>
      case new_cell (PAPIError (APIError [])) w1 of (apiError, w2) \<Rightarrow>
        finish order apiError
          (do {
             (r, w3) \<leftarrow> Sling_New (sling s) w2;
             (r, w4) \<leftarrow> Sling_Post [] r w3;
             (r, w5) \<leftarrow> Sling_BodyJSON (GPtr (map_option (reflect_OrderBody E) body)) r w4;
             performRequest E ctx r (httpClient s) order apiError w5
           }))"

definition OrderService_Edit ::
  "'a env \<Rightarrow> OrderService \<Rightarrow> Ctx \<Rightarrow> int32 \<Rightarrow> 'a OrderEditParams option \<Rightarrow> 'a world \<Rightarrow> 'a result" where
  "OrderService_Edit E s ctx id' params w0 =
     (case new_cell (POrder (new_Order E)) w0 of (order, w1) \<Rightarrow>
      case new_cell (PAPIError (APIError [])) w1 of (apiError, w2) \<Rightarrow>
        finish order apiError
          (do {
             (r, w3) \<leftarrow> Sling_New (sling s) w2;
             (r, w4) \<leftarrow> Sling_Put (Sprintf_d (sint id')) r w3;
             (r, w5) \<leftarrow> Sling_BodyJSON (GPtr (map_option (reflect_OrderEditParams E) params)) r w4;
             performRequest E ctx r (httpClient s) order apiError w5
           }))"

text \<open>A call to one of the five methods, to state what holds of every call.\<close>

datatype 'a call =
    List_call "OrderListParams option"
  | Count_call "OrderListParams option"
  | Show_call int32
  | New_call "'a OrderBody option"
  | Edit_call int32 "'a OrderEditParams option"

fun invoke :: "'a env \<Rightarrow> OrderService \<Rightarrow> Ctx \<Rightarrow> 'a call \<Rightarrow> 'a world \<Rightarrow> 'a result" where
  "invoke E s ctx (List_call params) w = OrderService_List E s ctx params w"
| "invoke E s ctx (Count_call params) w = OrderService_Count E s ctx params w"
| "invoke E s ctx (Show_call id') w = OrderService_Show E s ctx id' w"
| "invoke E s ctx (New_call body) w = OrderService_New E s ctx body w"
| "invoke E s ctx (Edit_call id' params) w = OrderService_Edit E s ctx id' params w"

fun zero_payload :: "'a env \<Rightarrow> 'a call \<Rightarrow> 'a payload" where
  \<comment> \<open>What \<^verbatim>\<open>new\<close> makes for the first result of each method.\<close>
  "zero_payload E (List_call params) = POrders None"
| "zero_payload E (Count_call params) = PCount \<lparr>Count = 0\<rparr>"
| "zero_payload E (Show_call id') = POrder (new_Order E)"
| "zero_payload E (New_call body) = POrder (new_Order E)"
| "zero_payload E (Edit_call id' params) = POrder (new_Order E)"

text \<open>
  The five methods share one shape: two \<^verbatim>\<open>new\<close>, a sling expression, \<^verbatim>\<open>performRequest\<close>,
  \<^verbatim>\<open>relevantError\<close>. \<open>call_with\<close> is that shape with the sling expression left open; the
  proofs below go through it.
\<close>

definition call_with ::
  "'a env \<Rightarrow> OrderService \<Rightarrow> Ctx \<Rightarrow> 'a payload \<Rightarrow> ('a world \<Rightarrow> (ref \<times> 'a world) option)
     \<Rightarrow> 'a world \<Rightarrow> 'a result" where
  "call_with E s ctx zero prep w0 =
     (case new_cell zero w0 of (v, w1) \<Rightarrow>
      case new_cell (PAPIError (APIError [])) w1 of (apiError, w2) \<Rightarrow>
        finish v apiError
          (case prep w2 of
             None \<Rightarrow> None
           | Some (r, w3) \<Rightarrow> performRequest E ctx r (httpClient s) v apiError w3))"

fun prepare :: "'a env \<Rightarrow> OrderService \<Rightarrow> 'a call \<Rightarrow> 'a world \<Rightarrow> (ref \<times> 'a world) option" where
  \<comment> \<open>The sling expression of each method.\<close>
  "prepare E s (List_call params) w =
     do { (r, w) \<leftarrow> Sling_New (sling s) w;
          Sling_QueryStruct (GPtr (map_option reflect_OrderListParams params)) r w }"
| "prepare E s (Count_call params) w =
     do { (r, w) \<leftarrow> Sling_Get ''count'' (sling s) w;
          Sling_QueryStruct (GPtr (map_option reflect_OrderListParams params)) r w }"
| "prepare E s (Show_call id') w =
     do { (r, w) \<leftarrow> Sling_New (sling s) w;
          Sling_Get (Sprintf_d (sint id')) r w }"
| "prepare E s (New_call body) w =
     do { (r, w) \<leftarrow> Sling_New (sling s) w;
          (r, w) \<leftarrow> Sling_Post [] r w;
          Sling_BodyJSON (GPtr (map_option (reflect_OrderBody E) body)) r w }"
| "prepare E s (Edit_call id' params) w =
     do { (r, w) \<leftarrow> Sling_New (sling s) w;
          (r, w) \<leftarrow> Sling_Put (Sprintf_d (sint id')) r w;
          Sling_BodyJSON (GPtr (map_option (reflect_OrderEditParams E) params)) r w }"

definition request_of :: "'a env \<Rightarrow> OrderService \<Rightarrow> 'a call \<Rightarrow> 'a world \<Rightarrow> Request option" where
  \<comment> \<open>The request a method builds of its sling expression, \<open>None\<close> when it cannot be built.\<close>
  "request_of E s c w =
     (case prepare E s c w of
        None \<Rightarrow> None
      | Some (r, w') \<Rightarrow> (case sling_at w' r of None \<Rightarrow> None | Some sl \<Rightarrow> Sling_Request sl))"

fun run :: "'a env \<Rightarrow> OrderService \<Rightarrow> Ctx \<Rightarrow> 'a call list \<Rightarrow> 'a world \<Rightarrow> 'a world option" where
  \<comment> \<open>The store after a sequence of calls on one service, results dropped.\<close>
  "run E s ctx [] w = Some w"
| "run E s ctx (c # cs) w =
     (case invoke E s ctx c w of
        None \<Rightarrow> None
      | Some (res, w') \<Rightarrow> run E s ctx cs w')"

fun payload_kind :: "'a payload \<Rightarrow> nat" where
  "payload_kind (POrders v) = 0"
| "payload_kind (PCount c) = 1"
| "payload_kind (POrder r) = 2"
| "payload_kind (PAPIError a) = 3"

definition members :: "'n json \<Rightarrow> (string \<times> 'n json) list option" where
  "members j = (case j of JObj ms \<Rightarrow> Some ms | _ \<Rightarrow> None)"

section \<open>A store, a service and stand-ins to run the methods on\<close>

text \<open>
  A base sling as \<^verbatim>\<open>sling.New().Base(...)\<close> leaves it, the service that
  \<^verbatim>\<open>newOrderService\<close> makes of it, an \<^verbatim>\<open>AddressEntity\<close> without fields, and a client
  that answers every request alike.
\<close>

definition base_sling :: Sling where
  "base_sling =
     \<lparr>verb = ''GET'', rawURL = ''https://store.example/api/v2/'', header = [],
      queryStructs = [], bodyProvider = None\<rparr>"

definition world0 :: "unit world" where
  "world0 = \<lparr>slings = [base_sling], cells = [], wire = []\<rparr>"

definition service0 :: OrderService where
  "service0 = \<lparr>sling = Ref 0, httpClient = 7\<rparr>"

definition world1 :: "unit world" where
  "world1 =
     \<lparr>slings = [base_sling\<lparr>rawURL := ''https://store.example/api/v2/orders/''\<rparr>],
      cells = [], wire = []\<rparr>"

definition answering :: "string + Response \<Rightarrow> unit env" where
  "answering outcome =
     \<lparr>addr_zero = (), addr_reflect = (\<lambda>a. []), addr_decode = (\<lambda>j a. (a, True)),
      transport = (\<lambda>client ctx sent. outcome)\<rparr>"

definition ok_null :: "string + Response" where
  "ok_null = Inr \<lparr>StatusCode = 200, resp_body = Some JNull\<rparr>"

definition not_found :: "string + Response" where
  "not_found =
     Inr \<lparr>StatusCode = 404,
          resp_body = Some (JObj [(''status'', JNum ''404''), (''message'', JStr ''Not found'')])\<rparr>"

definition no_filter :: OrderListParams where
  "no_filter =
     \<lparr>Page = 0, Limit = 0, Sort = [], MinID = 0, MaxID = 0, MinTotal = 0, MaxTotal = 0,
      OrderListParams.CustomerID = None, Email = [], OrderListParams.StatusID = None,
      OrderListParams.PaymentMethod = []\<rparr>"

definition no_edit :: "unit OrderEditParams" where
  "no_edit =
     \<lparr>OrderEditParams.CustomerID = None, OrderEditParams.StatusID = None,
      OrderEditParams.IPAddress = [], OrderEditParams.StaffNotes = [],
      OrderEditParams.CustomerMessage = [], OrderEditParams.BillingAddress = ()\<rparr>"

definition empty_body :: "unit OrderBody" where
  "empty_body =
     \<lparr>ExternalSource = [], OrderBody.CustomerID = None, OrderBody.StatusID = None,
      OrderBody.BillingAddress = (), Products = None,
      OrderBody.ShippingCostIncTax = 0, OrderBody.ShippingCostExTax = 0,
      OrderBody.HandlingCostIncTax = 0, OrderBody.HandlingCostExTax = 0,
      ShippingAddresses = None, OrderBody.CustomerMessage = [], OrderBody.StaffNotes = []\<rparr>"

section \<open>Properties\<close>

subsection \<open>Decimal text\<close>

lemma below_ten: "d < 10 \<Longrightarrow> d \<in> {0, 1, 2, 3, 4, 5, 6, 7, 8, 9 :: nat}"
  by auto

lemma digit_val_digit_char: "d < 10 \<Longrightarrow> digit_val (digit_char d) = Some d"
  by (drule below_ten) (auto simp: digit_val_def digit_char_def)

lemma digit_char_not_sign: "digit_char d \<noteq> CHR ''-'' \<and> digit_char d \<noteq> CHR ''+''"
proof -
  have "d mod 10 \<in> {0, 1, 2, 3, 4, 5, 6, 7, 8, 9 :: nat}"
    by (rule below_ten) simp
  then show ?thesis
    by (auto simp: digit_char_def)
qed

lemma digits_val_append:
  "digits_val acc (xs @ ys) = (case digits_val acc xs of None \<Rightarrow> None | Some a \<Rightarrow> digits_val a ys)"
  by (induction xs arbitrary: acc) (auto split: option.splits)

lemma dec_nat_shape: "\<exists>c cs. dec_nat n = c # cs \<and> c \<noteq> CHR ''-'' \<and> c \<noteq> CHR ''+''"
proof (induction n rule: dec_nat.induct)
  case (1 n)
  show ?case
  proof (cases "n < 10")
    case True
    then show ?thesis by (simp add: dec_nat.simps [of n] digit_char_not_sign)
  next
    case False
    with 1 obtain c cs where "dec_nat (n div 10) = c # cs" "c \<noteq> CHR ''-''" "c \<noteq> CHR ''+''"
      by auto
    with False show ?thesis by (simp add: dec_nat.simps [of n])
  qed
qed

lemma digits_val_dec_nat: "digits_val 0 (dec_nat n) = Some n"
proof (induction n rule: dec_nat.induct)
  case (1 n)
  show ?case
  proof (cases "n < 10")
    case True
    then show ?thesis by (simp add: dec_nat.simps [of n] digit_val_digit_char)
  next
    case False
    with 1 have "digits_val 0 (dec_nat (n div 10)) = Some (n div 10)" by simp
    with False show ?thesis
      by (simp add: dec_nat.simps [of n] digits_val_append digit_val_digit_char)
  qed
qed

text \<open>The decimal text of an integer reads back as that integer.\<close>

lemma ParseInt_Sprintf_d: "ParseInt (Sprintf_d i) = Some i"
proof (cases "i < 0")
  case True
  obtain c cs where "dec_nat (nat (- i)) = c # cs" using dec_nat_shape by blast
  with True digits_val_dec_nat [of "nat (- i)"] show ?thesis
    by (simp add: ParseInt_def Sprintf_d_def)
next
  case False
  obtain c cs where s: "dec_nat (nat i) = c # cs" "c \<noteq> CHR ''-''" "c \<noteq> CHR ''+''"
    using dec_nat_shape by blast
  with False digits_val_dec_nat [of "nat i"] show ?thesis
    by (simp add: ParseInt_def Sprintf_d_def)
qed

lemmas sling_defs = Sling_New_def sling_write_def Sling_Path_def Sling_Get_def Sling_Post_def
  Sling_Put_def Sling_QueryStruct_def Sling_BodyJSON_def set_Path_def set_verb_def
  add_QueryStruct_def set_BodyJSON_def header_Set_def ResolveReference_def dir_of_def sling_at_def

lemmas run_defs = OrderService_List_def OrderService_Count_def OrderService_Show_def
  OrderService_New_def OrderService_Edit_def finish_def performRequest_def decode_into_def
  cell_at_def new_cell_def apiError_at_def relevantError_def Sling_Request_def body_of_def

lemmas demo_defs = world0_def world1_def service0_def base_sling_def answering_def ok_null_def
  not_found_def no_filter_def no_edit_def empty_body_def

lemmas reflect_defs = reflect_OrderListParams_def reflect_OrderProduct_def reflect_OrderBody_def
  reflect_OrderEditParams_def uint32_ptr_def f32_is_zero_def f32_finite_def scoped_def

lemmas text_defs = Sprintf_d_def dec_nat.simps digit_char_def

subsection \<open>The steps of a call\<close>

lemma sling_write_SomeD:
  assumes "sling_write f r w = Some (r', w')"
  shows "r' = r \<and> cells w' = cells w \<and> wire w' = wire w \<and> sling_at w' r' \<noteq> None
         \<and> length (slings w') = length (slings w)
         \<and> (\<forall>a. r \<noteq> Ref a \<longrightarrow> a < length (slings w) \<longrightarrow> slings w' ! a = slings w ! a)"
  using assms
  by (auto simp: sling_write_def sling_at_def split: ref.splits option.splits if_splits)

lemma sling_write_returns:
  "sling_at w r = Some sl \<Longrightarrow> \<exists>w'. sling_write f r w = Some (r, w')"
  by (auto simp: sling_write_def sling_at_def split: ref.splits if_splits)

lemma Sling_New_SomeD:
  assumes "Sling_New r w = Some (r', w')"
  shows "r' = Ref (length (slings w)) \<and> cells w' = cells w \<and> wire w' = wire w
         \<and> sling_at w' r' = sling_at w r \<and> sling_at w r \<noteq> None
         \<and> length (slings w') = Suc (length (slings w))
         \<and> (\<forall>a < length (slings w). slings w' ! a = slings w ! a)"
  using assms
  by (auto simp: Sling_New_def sling_at_def nth_append split: ref.splits option.splits if_splits)

lemma Sling_New_returns:
  "sling_at w r = Some sl \<Longrightarrow> \<exists>w'. Sling_New r w = Some (Ref (length (slings w)), w')"
  by (simp add: Sling_New_def)

lemmas setter_defs = Sling_Path_def Sling_Get_def Sling_Post_def Sling_Put_def
  Sling_QueryStruct_def Sling_BodyJSON_def

lemma prepare_SomeD:
  assumes "prepare E s c w = Some (r, w')"
  shows "cells w' = cells w \<and> wire w' = wire w \<and> sling_at w' r \<noteq> None"
proof (cases c)
  case (List_call params)
  with assms show ?thesis
    by (auto simp: setter_defs split: Option.bind_splits dest!: Sling_New_SomeD sling_write_SomeD)
next
  case (Count_call params)
  with assms show ?thesis
    by (auto simp: setter_defs split: Option.bind_splits dest!: sling_write_SomeD)
next
  case (Show_call i)
  with assms show ?thesis
    by (auto simp: setter_defs split: Option.bind_splits dest!: Sling_New_SomeD sling_write_SomeD)
next
  case (New_call body)
  with assms show ?thesis
    by (auto simp: setter_defs split: Option.bind_splits dest!: Sling_New_SomeD sling_write_SomeD)
next
  case (Edit_call i params)
  with assms show ?thesis
    by (auto simp: setter_defs split: Option.bind_splits dest!: Sling_New_SomeD sling_write_SomeD)
qed

lemma prepare_cells_update:
  assumes "prepare E s c w = Some (r, w')"
  shows "prepare E s c (w\<lparr>cells := x\<rparr>) = Some (r, w'\<lparr>cells := x\<rparr>)"
proof (cases c)
  case (List_call params)
  with assms show ?thesis
    by (auto simp: setter_defs Sling_New_def sling_write_def sling_at_def
        split: Option.bind_splits ref.splits option.splits if_splits)
next
  case (Count_call params)
  with assms show ?thesis
    by (auto simp: setter_defs Sling_New_def sling_write_def sling_at_def
        split: Option.bind_splits ref.splits option.splits if_splits)
next
  case (Show_call i)
  with assms show ?thesis
    by (auto simp: setter_defs Sling_New_def sling_write_def sling_at_def
        split: Option.bind_splits ref.splits option.splits if_splits)
next
  case (New_call body)
  with assms show ?thesis
    by (auto simp: setter_defs Sling_New_def sling_write_def sling_at_def
        split: Option.bind_splits ref.splits option.splits if_splits)
next
  case (Edit_call i params)
  with assms show ?thesis
    by (auto simp: setter_defs Sling_New_def sling_write_def sling_at_def
        split: Option.bind_splits ref.splits option.splits if_splits)
qed

lemma invoke_call_with:
  "invoke E s ctx c w = call_with E s ctx (zero_payload E c) (prepare E s c) w"
  by (cases c)
     (auto simp: OrderService_List_def OrderService_Count_def OrderService_Show_def
        OrderService_New_def OrderService_Edit_def call_with_def new_cell_def
        intro!: arg_cong [where f = "finish _ _"]
        split: Option.bind_splits option.splits prod.splits)


lemma sling_write_step:
  "sling_at v r = Some sl' \<Longrightarrow>
     \<exists>v' sl''. sling_write f r v = Some (r, v') \<and> sling_at v' r = Some sl''"
  by (auto simp: sling_write_def sling_at_def split: ref.splits if_splits)

lemma Sling_New_step:
  "sling_at w r = Some sl \<Longrightarrow>
     \<exists>w'. Sling_New r w = Some (Ref (length (slings w)), w')
          \<and> sling_at w' (Ref (length (slings w))) = Some sl"
  by (simp add: Sling_New_def sling_at_def)

lemma prepare_returns:
  assumes "sling_at w (sling s) = Some sl"
  shows "\<exists>r w'. prepare E s c w = Some (r, w')"
proof -
  obtain w1 where n: "Sling_New (sling s) w = Some (Ref (length (slings w)), w1)"
    and s1: "sling_at w1 (Ref (length (slings w))) = Some sl"
    using Sling_New_step [OF assms] by blast
  show ?thesis
  proof (cases c)
    case (List_call params)
    with n sling_write_step [OF s1] show ?thesis by (fastforce simp: setter_defs)
  next
    case (Count_call params)
    from sling_write_step [OF assms, of "set_verb ''GET'' ''count''"] obtain v' sl''
      where a: "sling_write (set_verb ''GET'' ''count'') (sling s) w = Some (sling s, v')"
        and b: "sling_at v' (sling s) = Some sl''" by blast
    with Count_call sling_write_step [OF b] show ?thesis by (fastforce simp: setter_defs)
  next
    case (Show_call i)
    with n sling_write_step [OF s1] show ?thesis by (fastforce simp: setter_defs)
  next
    case (New_call body)
    from sling_write_step [OF s1, of "set_verb ''POST'' []"] obtain v' sl''
      where a: "sling_write (set_verb ''POST'' []) (Ref (length (slings w))) w1 = Some (Ref (length (slings w)), v')"
        and b: "sling_at v' (Ref (length (slings w))) = Some sl''" by blast
    with New_call n sling_write_step [OF b] show ?thesis by (fastforce simp: setter_defs)
  next
    case (Edit_call i params)
    from sling_write_step [OF s1, of "set_verb ''PUT'' (Sprintf_d (sint i))"] obtain v' sl''
      where a: "sling_write (set_verb ''PUT'' (Sprintf_d (sint i))) (Ref (length (slings w))) w1 = Some (Ref (length (slings w)), v')"
        and b: "sling_at v' (Ref (length (slings w))) = Some sl''" by blast
    with Edit_call n sling_write_step [OF b] show ?thesis by (fastforce simp: setter_defs)
  qed
qed

lemma decode_payload_kind: "payload_kind (fst (decode_payload E j c)) = payload_kind c"
  by (cases c) (simp_all split: prod.splits)

lemma decode_into_SomeD:
  assumes "decode_into E doc dest w = Some (err, w')"
  shows "\<exists>a c. dest = Ref a \<and> a < length (cells w) \<and> cells w ! a = c
           \<and> cells w' = (cells w)[a := fst (decode_payload E doc c)]
           \<and> err = (if snd (decode_payload E doc c) then None else Some (Transport Malformed))
           \<and> slings w' = slings w \<and> wire w' = wire w"
  using assms
  by (auto simp: decode_into_def cell_at_def split: ref.splits option.splits if_splits prod.splits)

lemma decode_into_returns:
  "a < length (cells w) \<Longrightarrow> \<exists>err w'. decode_into E doc (Ref a) w = Some (err, w')"
  by (simp add: decode_into_def cell_at_def split: prod.splits)

text \<open>What \<^verbatim>\<open>performRequest\<close> leaves of the store, whatever the outcome.\<close>

lemma performRequest_SomeD:
  assumes "performRequest E ctx sl client (Ref a) (Ref b) w = Some ((resp, err), w')"
  shows "slings w' = slings w \<and> length (cells w') = length (cells w)
         \<and> (\<forall>i < length (cells w). payload_kind (cells w' ! i) = payload_kind (cells w ! i))
         \<and> (\<forall>i < length (cells w). i \<noteq> a \<and> i \<noteq> b \<longrightarrow> cells w' ! i = cells w ! i)
         \<and> (\<forall>e. err \<noteq> Some (APIFailure e))
         \<and> (wire w' = wire w \<or> (\<exists>req. wire w' = wire w @ [req]))"
  using assms
  by (auto simp: performRequest_def Let_def nth_list_update decode_payload_kind
      split: option.splits sum.splits if_splits dest!: decode_into_SomeD)

lemma performRequest_returns:
  assumes "sling_at w sl = Some s0" "a < length (cells w)" "b < length (cells w)"
  shows "\<exists>resp err w'. performRequest E ctx sl client (Ref a) (Ref b) w = Some ((resp, err), w')"
  using assms
  by (auto simp: performRequest_def Let_def decode_into_def cell_at_def
      split: option.splits sum.splits prod.splits)


lemma call_with_SomeD:
  assumes "call_with E s ctx zero prep w = Some ((p, resp, err), w')"
  shows "p = Ref (length (cells w)) \<and>
         (\<exists>r w3 terr api.
            prep (w\<lparr>cells := cells w @ [zero, PAPIError (APIError [])]\<rparr>) = Some (r, w3)
          \<and> performRequest E ctx r (httpClient s) p (Ref (Suc (length (cells w)))) w3
              = Some ((resp, terr), w')
          \<and> apiError_at w' (Ref (Suc (length (cells w)))) = Some api
          \<and> err = relevantError terr api)"
  using assms
  by (auto simp: call_with_def new_cell_def finish_def split: option.splits prod.splits)

lemma kind_APIError: "payload_kind c = 3 \<Longrightarrow> \<exists>a. c = PAPIError a"
  by (cases c) simp_all

lemma call_with_returns:
  assumes ok: "\<And>v. slings v = slings w \<Longrightarrow> \<exists>r v'. prep v = Some (r, v')"
    and keeps: "\<And>v r v'. prep v = Some (r, v') \<Longrightarrow>
                  cells v' = cells v \<and> wire v' = wire v \<and> sling_at v' r \<noteq> None"
  shows "\<exists>resp err w'.
           call_with E s ctx zero prep w = Some ((Ref (length (cells w)), resp, err), w')
         \<and> take (length (cells w)) (cells w') = cells w
         \<and> (\<exists>v. cell_at w' (Ref (length (cells w))) = Some v \<and> payload_kind v = payload_kind zero)"
proof -
  let ?n = "length (cells w)"
  let ?w2 = "w\<lparr>cells := cells w @ [zero, PAPIError (APIError [])]\<rparr>"
  obtain r w3 where p: "prep ?w2 = Some (r, w3)"
    using ok [of ?w2] by auto
  from keeps [OF p] obtain s0 where c3: "cells w3 = cells w @ [zero, PAPIError (APIError [])]"
    and s3: "sling_at w3 r = Some s0" by auto
  have len: "?n < length (cells w3)" "Suc ?n < length (cells w3)"
    by (simp_all add: c3)
  from performRequest_returns [OF s3 len] obtain resp terr w'
    where pr: "performRequest E ctx r (httpClient s) (Ref ?n) (Ref (Suc ?n)) w3 = Some ((resp, terr), w')"
    by blast
  note fr = performRequest_SomeD [OF pr]
  have l': "length (cells w') = Suc (Suc ?n)"
    using fr by (simp add: c3)
  have "payload_kind (cells w' ! Suc ?n) = 3"
    using fr len by (simp add: c3 nth_append)
  then obtain a where a: "cells w' ! Suc ?n = PAPIError a"
    using kind_APIError by blast
  have k0: "payload_kind (cells w' ! ?n) = payload_kind zero"
    using fr len by (simp add: c3 nth_append)
  have pre: "take ?n (cells w') = cells w"
  proof (rule nth_equalityI)
    show "length (take ?n (cells w')) = length (cells w)" using l' by simp
  next
    fix i assume "i < length (take ?n (cells w'))"
    then have i: "i < ?n" by simp
    then have "cells w' ! i = cells w3 ! i" using fr by (simp add: c3)
    with i show "take ?n (cells w') ! i = cells w ! i" by (simp add: c3 nth_append)
  qed
  have "call_with E s ctx zero prep w = Some ((Ref ?n, resp, relevantError terr a), w')"
    using p pr a l'
    by (simp add: call_with_def new_cell_def finish_def apiError_at_def cell_at_def)
  with pre k0 l' show ?thesis
    by (auto simp: cell_at_def)
qed

lemma performRequest_failure_response:
  assumes "performRequest E ctx sl client (Ref a) (Ref b) w = Some ((Some resp, terr), w')"
    and "\<not> (200 \<le> StatusCode resp \<and> StatusCode resp \<le> 299)"
    and "resp_body resp = Some (JObj ms)"
    and "b < length (cells w)" and "cells w ! b = PAPIError a0"
  shows "terr = None \<and> cells w' = (cells w)[b := PAPIError (APIError ms)]"
  using assms
  by (auto simp: performRequest_def Let_def decode_into_def cell_at_def
      split: option.splits sum.splits if_splits prod.splits)

subsection \<open>Bodies, queries and decoded orders\<close>

lemma marshal_fields_keys:
  assumes "marshal_fields fs = Some ms"
  shows "name \<in> fst ` set ms \<longleftrightarrow>
           (\<exists>omit v. Field name omit v \<in> set fs \<and> \<not> (omit \<and> isEmptyValue v))"
  using assms
proof (induction fs arbitrary: ms)
  case Nil
  then show ?case by simp
next
  case (Cons f fs)
  obtain n om x where f: "f = Field n om x" by (cases f)
  show ?case
  proof (cases "om \<and> isEmptyValue x")
    case True
    with Cons.prems have "marshal_fields fs = Some ms" by (simp add: f)
    from Cons.IH [OF this] True show ?thesis by (auto simp: f)
  next
    case False
    with Cons.prems obtain j ms' where j: "marshal x = Some j"
      and r: "marshal_fields fs = Some ms'" and ms: "ms = (n, j) # ms'"
      by (auto simp: f split: option.splits)
    from Cons.IH [OF r] False show ?thesis by (auto simp: f ms)
  qed
qed

lemma marshal_fields_value:
  assumes "marshal_fields fs = Some ms"
    and "Field name omit v \<in> set fs" and "\<not> (omit \<and> isEmptyValue v)"
    and "\<forall>omit' v'. Field name omit' v' \<in> set fs \<longrightarrow> omit' = omit \<and> v' = v"
  shows "\<exists>j. marshal v = Some j \<and> map_of ms name = Some j"
  using assms
proof (induction fs arbitrary: ms)
  case Nil
  from Nil(2) show ?case by simp
next
  case (Cons f fs)
  obtain n om x where f: "f = Field n om x" by (cases f)
  show ?case
  proof (cases "n = name")
    case True
    with Cons.prems(4) have same: "om = omit" "x = v" by (auto simp: f)
    with Cons.prems(1,3) True show ?thesis
      by (auto simp: f split: option.splits)
  next
    case False
    with Cons.prems(2) have mem: "Field name omit v \<in> set fs" by (simp add: f)
    from Cons.prems(4) have uniq: "\<forall>omit' v'. Field name omit' v' \<in> set fs \<longrightarrow> omit' = omit \<and> v' = v"
      by simp
    show ?thesis
    proof (cases "om \<and> isEmptyValue x")
      case True
      with Cons.prems(1) have "marshal_fields fs = Some ms" by (simp add: f)
      from Cons.IH [OF this mem Cons.prems(3) uniq] show ?thesis .
    next
      case nonempty: False
      with Cons.prems(1) obtain j ms' where r: "marshal_fields fs = Some ms'" and ms: "ms = (n, j) # ms'"
        by (auto simp: f split: option.splits)
      from Cons.IH [OF r mem Cons.prems(3) uniq] False show ?thesis by (simp add: ms)
    qed
  qed
qed

lemma performRequest_sent:
  assumes "performRequest E ctx r client a b w = Some (res, w')" and "wire w' = wire w @ [req]"
  shows "\<exists>sl. sling_at w r = Some sl \<and> Sling_Request sl = Some req"
  using assms
  by (auto simp: performRequest_def Let_def decode_into_def
      split: option.splits sum.splits ref.splits prod.splits if_splits)

lemma Sling_Request_body:
  assumes "Sling_Request sl = Some req" and "bodyProvider sl = Some v"
  shows "\<exists>j. marshal v = Some j \<and> req_body req = Some j"
  using assms by (auto simp: Sling_Request_def body_of_def split: option.splits)

lemma prepare_New_sling:
  assumes "prepare E s (New_call body) w = Some (r, w')"
  shows "\<exists>sl. sling_at w' r = Some sl \<and> verb sl = ''POST''
           \<and> bodyProvider sl = Some (GPtr (map_option (reflect_OrderBody E) body))"
  using assms
  by (auto simp: setter_defs Sling_New_def sling_write_def sling_at_def set_verb_def set_Path_def
        set_BodyJSON_def
      split: Option.bind_splits ref.splits option.splits if_splits)

lemma prepare_Edit_sling:
  assumes "prepare E s (Edit_call i params) w = Some (r, w')"
  shows "\<exists>sl. sling_at w' r = Some sl \<and> verb sl = ''PUT''
           \<and> bodyProvider sl = Some (GPtr (map_option (reflect_OrderEditParams E) params))"
  using assms
  by (auto simp: setter_defs Sling_New_def sling_write_def sling_at_def set_verb_def set_Path_def
        set_BodyJSON_def
      split: Option.bind_splits ref.splits option.splits if_splits)

lemma invoke_sent:
  assumes "invoke E s ctx c w = Some (res, w')" and "wire w' = wire w @ [req]"
  shows "\<exists>r w3 sl. prepare E s c (w\<lparr>cells := cells w @ [zero_payload E c, PAPIError (APIError [])]\<rparr>)
                     = Some (r, w3)
                 \<and> sling_at w3 r = Some sl \<and> Sling_Request sl = Some req"
proof -
  obtain p resp err where res: "res = (p, resp, err)" by (cases res)
  from assms(1) have "call_with E s ctx (zero_payload E c) (prepare E s c) w = Some ((p, resp, err), w')"
    by (simp add: invoke_call_with res)
  from call_with_SomeD [OF this] obtain r w3 terr where
    prep: "prepare E s c (w\<lparr>cells := cells w @ [zero_payload E c, PAPIError (APIError [])]\<rparr>)
             = Some (r, w3)"
    and pr: "performRequest E ctx r (httpClient s) p (Ref (Suc (length (cells w)))) w3
               = Some ((resp, terr), w')" by blast
  from prepare_SomeD [OF prep] have "wire w3 = wire w" by simp
  with assms(2) have "wire w' = wire w3 @ [req]" by simp
  from performRequest_sent [OF pr this] prep show ?thesis by blast
qed


lemma find_field_sound:
  assumes "find_field tbl k = Some f"
  shows "\<exists>tag. (tag, f) \<in> set tbl \<and> foldName tag = foldName k"
proof (cases "map_of tbl k")
  case None
  with assms obtain e where e: "find (\<lambda>e. foldName (fst e) = foldName k) tbl = Some e" "snd e = f"
    by (auto simp: find_field_def)
  from e(1) obtain i where "i < length tbl" "tbl ! i = e" "foldName (fst e) = foldName k"
    by (auto simp: find_Some_iff)
  then have "e \<in> set tbl" by (auto simp: in_set_conv_nth)
  with e(2) \<open>foldName (fst e) = foldName k\<close> show ?thesis
    by (cases e) auto
next
  case (Some g)
  with assms have "g = f" by (simp add: find_field_def)
  with Some show ?thesis by (auto dest: map_of_SomeD)
qed

lemma assign_keeps_CouponDiscount:
  assumes "(tag, f) \<in> set Order_fields" "foldName tag \<noteq> foldName ''counpon_discount''"
  shows "CouponDiscount (fst (assign E f v r)) = CouponDiscount r"
  using assms
  by (auto simp: Order_fields_def split: decoded.splits prod.splits)

lemma decode_members_keeps_CouponDiscount:
  assumes "\<forall>k \<in> fst ` set ms. foldName k \<noteq> foldName ''counpon_discount''"
  shows "CouponDiscount (fst (decode_members E ms r)) = CouponDiscount r"
  using assms
proof (induction ms arbitrary: r)
  case Nil
  show ?case by simp
next
  case (Cons m ms)
  obtain k v where m: "m = (k, v)" by (cases m)
  from Cons.prems have k: "foldName k \<noteq> foldName ''counpon_discount''"
    and rest: "\<forall>k \<in> fst ` set ms. foldName k \<noteq> foldName ''counpon_discount''"
    by (simp_all add: m)
  show ?case
  proof (cases "find_field (Order_fields :: (string \<times> 'a Order_field) list) k")
    case None
    with Cons.IH [OF rest] show ?thesis by (simp add: m)
  next
    case (Some f)
    from find_field_sound [OF Some] obtain tag
      where t: "(tag, f) \<in> set (Order_fields :: (string \<times> 'a Order_field) list)"
        and "foldName tag = foldName k" by blast
    with k have "foldName tag \<noteq> foldName ''counpon_discount''" by simp
    from assign_keeps_CouponDiscount [OF t this]
    have "CouponDiscount (fst (assign E f v r)) = CouponDiscount r" .
    with Cons.IH [OF rest, of "fst (assign E f v r)"] Some show ?thesis
      by (simp add: m case_prod_unfold)
  qed
qed

lemma decode_members_append:
  "fst (decode_members E (ms @ ms') r) = fst (decode_members E ms' (fst (decode_members E ms r)))"
  by (induction ms arbitrary: r) (auto simp: case_prod_unfold split: option.splits)

lemma counpon_find:
  "find_field Order_fields ''counpon_discount'' = Some (StringField (\<lambda>v r. r\<lparr>CouponDiscount := v\<rparr>))"
  by (simp add: find_field_def Order_fields_def)

subsection \<open>The methods on a service that was just made\<close>

lemma service0_made: "newOrderService (Ref 0) 7 world0 = Some (service0, world1)"
  by (simp add: newOrderService_def sling_defs demo_defs)

text \<open>
  On the service as \<^verbatim>\<open>newOrderService\<close> leaves it, and as long as no \<^verbatim>\<open>Count\<close> came
  before, every method sends one request with the method and path the spec lists.
\<close>

lemma fresh_service_requests:
  "map_option (map (\<lambda>q. (req_method q, req_url q)) \<circ> wire)
     (run (answering ok_null) service0 0
        [List_call (Some no_filter), Show_call 42, New_call (Some empty_body),
         Edit_call 42 (Some no_edit), Count_call (Some no_filter)] world1) =
   Some [(''GET'', ''https://store.example/api/v2/orders/''),
         (''GET'', ''https://store.example/api/v2/orders/42''),
         (''POST'', ''https://store.example/api/v2/orders/''),
         (''PUT'', ''https://store.example/api/v2/orders/42''),
         (''GET'', ''https://store.example/api/v2/orders/count'')]"
  by (simp add: run_defs sling_defs demo_defs reflect_defs text_defs)

subsection \<open>Count writes to the sling of the service\<close>

lemma prepare_keeps_slings:
  assumes "\<forall>params. c \<noteq> Count_call params" and "prepare E s c w = Some (r, w')"
  shows "\<forall>a < length (slings w). slings w' ! a = slings w ! a"
proof (cases c)
  case (List_call params)
  with assms(2) show ?thesis
    by (auto simp: setter_defs Sling_New_def sling_write_def sling_at_def nth_append
        split: Option.bind_splits ref.splits option.splits if_splits)
next
  case (Count_call params)
  with assms(1) show ?thesis by simp
next
  case (Show_call i)
  with assms(2) show ?thesis
    by (auto simp: setter_defs Sling_New_def sling_write_def sling_at_def nth_append
        split: Option.bind_splits ref.splits option.splits if_splits)
next
  case (New_call body)
  with assms(2) show ?thesis
    by (auto simp: setter_defs Sling_New_def sling_write_def sling_at_def nth_append
        split: Option.bind_splits ref.splits option.splits if_splits)
next
  case (Edit_call i params)
  with assms(2) show ?thesis
    by (auto simp: setter_defs Sling_New_def sling_write_def sling_at_def nth_append
        split: Option.bind_splits ref.splits option.splits if_splits)
qed

text \<open>
  \<^verbatim>\<open>List\<close>, \<^verbatim>\<open>Show\<close>, \<^verbatim>\<open>New\<close> and \<^verbatim>\<open>Edit\<close> leave every sling the store had as it was, the
  service's own among them.
\<close>

lemma other_methods_keep_the_service_sling:
  assumes "\<forall>params. c \<noteq> Count_call params"
    and "invoke E s ctx c w = Some (res, w')"
    and "sling_at w (sling s) = Some sl"
  shows "sling_at w' (sling s) = Some sl"
proof -
  obtain p resp err where res: "res = (p, resp, err)" by (cases res)
  from assms(2) have "call_with E s ctx (zero_payload E c) (prepare E s c) w = Some ((p, resp, err), w')"
    by (simp add: invoke_call_with res)
  from call_with_SomeD [OF this] obtain r w3 terr where
    prep: "prepare E s c (w\<lparr>cells := cells w @ [zero_payload E c, PAPIError (APIError [])]\<rparr>)
             = Some (r, w3)"
    and pr: "performRequest E ctx r (httpClient s) (Ref (length (cells w))) (Ref (Suc (length (cells w)))) w3
               = Some ((resp, terr), w')" by blast
  from performRequest_SomeD [OF pr] have same: "slings w' = slings w3" by simp
  from assms(3) obtain a where a: "sling s = Ref a" "a < length (slings w)" "slings w ! a = sl"
    by (auto simp: sling_at_def split: ref.splits if_splits)
  from prepare_keeps_slings [OF assms(1) prep] a have "slings w3 ! a = sl" by simp
  moreover from prep a have "a < length (slings w3)"
    by (cases c)
       (auto simp: setter_defs Sling_New_def sling_write_def sling_at_def
          split: Option.bind_splits ref.splits option.splits if_splits)
  ultimately show ?thesis using a same by (simp add: sling_at_def)
qed

text \<open>
  Claim C1 says that no call changes the state of the service: the sling it stores is
  the same after the call as before, so that a \<^verbatim>\<open>Count\<close> leaves the path and method
  of later calls alone. \<^verbatim>\<open>List\<close>, \<^verbatim>\<open>Show\<close>, \<^verbatim>\<open>New\<close> and \<^verbatim>\<open>Edit\<close> call \<^verbatim>\<open>s.sling.New()\<close>
  and write to the copy. \<^verbatim>\<open>Count\<close> calls \<^verbatim>\<open>s.sling.Get("count")\<close>, which writes to the
  service's own sling: after one \<^verbatim>\<open>Count\<close> on a service whose sling had the path
  \<^verbatim>\<open>orders/\<close> and no query struct, that sling has the path \<^verbatim>\<open>orders/count\<close> and holds the
  parameters of the call.
\<close>

theorem Count_overwrites_the_service_sling:
  "slings world1 = [base_sling\<lparr>rawURL := ''https://store.example/api/v2/orders/''\<rparr>]
   \<and> sling service0 = Ref 0
   \<and> map_option slings
        (run (answering ok_null) service0 0 [Count_call (Some no_filter)] world1) =
      Some [base_sling\<lparr>rawURL := ''https://store.example/api/v2/orders/count'',
              queryStructs := [GPtr (Some (reflect_OrderListParams no_filter))]\<rparr>]"
  by (simp add: run_defs sling_defs demo_defs reflect_defs)

lemma key_of_optional:
  "k \<in> fst ` set (if c then [] else xs) \<longleftrightarrow> \<not> c \<and> k \<in> fst ` set xs"
  "kv \<in> set (if c then [] else xs) \<longleftrightarrow> \<not> c \<and> kv \<in> set xs"
  by simp_all

lemma filter_values:
  "\<exists>vs. Values (GPtr (Some (reflect_OrderListParams p))) = Some vs
      \<and> (''customer_id'' \<in> fst ` set vs \<longleftrightarrow> OrderListParams.CustomerID p \<noteq> None)
      \<and> (\<forall>u. OrderListParams.CustomerID p = Some u
             \<longrightarrow> (''customer_id'', QText (dec_nat (unat u))) \<in> set vs)
      \<and> (''status_id'' \<in> fst ` set vs \<longleftrightarrow> OrderListParams.StatusID p \<noteq> None)
      \<and> (\<forall>u. OrderListParams.StatusID p = Some u
             \<longrightarrow> (''status_id'', QText (dec_nat (unat u))) \<in> set vs)"
  by (cases "OrderListParams.CustomerID p"; cases "OrderListParams.StatusID p")
     (simp_all add: reflect_OrderListParams_def uint32_ptr_def scoped_def image_Un key_of_optional)

lemma dec_nat_0: "dec_nat (unat (0 :: uint32)) = ''0''"
  by (simp add: dec_nat.simps digit_char_def)

lemma sling_at_cells_update: "sling_at (w\<lparr>cells := x\<rparr>) r = sling_at w r"
  by (simp add: sling_at_def split: ref.splits)

lemma prepare_query_sling:
  assumes "c = List_call (Some p) \<or> c = Count_call (Some p)"
    and "sling_at w (sling s) = Some sl"
    and "prepare E s c w = Some (r, w')"
  shows "\<exists>sl'. sling_at w' r = Some sl'
           \<and> queryStructs sl' = queryStructs sl @ [GPtr (Some (reflect_OrderListParams p))]
           \<and> bodyProvider sl' = bodyProvider sl"
  using assms
  by (auto simp: setter_defs Sling_New_def sling_write_def sling_at_def set_verb_def set_Path_def
        add_QueryStruct_def nth_append
      split: Option.bind_splits ref.splits option.splits if_splits)

text \<open>
  On a service whose sling holds no query struct (no \<^verbatim>\<open>Count\<close> was called on it), the
  query of a \<^verbatim>\<open>List\<close> or \<^verbatim>\<open>Count\<close> has \<^verbatim>\<open>customer_id\<close> exactly when the pointer is not nil,
  with the decimal text of the value, \<^verbatim>\<open>0\<close> for a pointer to 0.
\<close>

lemma query_of_a_sling_without_query_structs:
  assumes c: "c = List_call (Some p) \<or> c = Count_call (Some p)"
    and sl: "sling_at w (sling s) = Some sl" and clean: "queryStructs sl = []"
    and call: "invoke E s ctx c w = Some (res, w')" and sent: "wire w' = wire w @ [req]"
  shows "(''customer_id'' \<in> fst ` set (req_query req) \<longleftrightarrow> OrderListParams.CustomerID p \<noteq> None)
       \<and> (\<forall>u. OrderListParams.CustomerID p = Some u
              \<longrightarrow> (''customer_id'', QText (dec_nat (unat u))) \<in> set (req_query req))
       \<and> (''status_id'' \<in> fst ` set (req_query req) \<longleftrightarrow> OrderListParams.StatusID p \<noteq> None)
       \<and> (\<forall>u. OrderListParams.StatusID p = Some u
              \<longrightarrow> (''status_id'', QText (dec_nat (unat u))) \<in> set (req_query req))"
proof -
  let ?w2 = "w\<lparr>cells := cells w @ [zero_payload E c, PAPIError (APIError [])]\<rparr>"
  from invoke_sent [OF call sent] obtain r w3 sl' where
    prep: "prepare E s c ?w2 = Some (r, w3)"
    and sl': "sling_at w3 r = Some sl'" and rq: "Sling_Request sl' = Some req" by blast
  from sl have "sling_at ?w2 (sling s) = Some sl" by (simp add: sling_at_cells_update)
  from prepare_query_sling [OF c this prep] sl' clean
  have q: "queryStructs sl' = [GPtr (Some (reflect_OrderListParams p))]" by auto
  obtain vs where vs: "Values (GPtr (Some (reflect_OrderListParams p))) = Some vs"
    and facts: "(''customer_id'' \<in> fst ` set vs \<longleftrightarrow> OrderListParams.CustomerID p \<noteq> None)"
      "(\<forall>u. OrderListParams.CustomerID p = Some u
             \<longrightarrow> (''customer_id'', QText (dec_nat (unat u))) \<in> set vs)"
      "(''status_id'' \<in> fst ` set vs \<longleftrightarrow> OrderListParams.StatusID p \<noteq> None)"
      "(\<forall>u. OrderListParams.StatusID p = Some u
             \<longrightarrow> (''status_id'', QText (dec_nat (unat u))) \<in> set vs)"
    using filter_values [of p] by blast
  from rq q vs have "set (req_query req) = set vs"
    by (auto simp: Sling_Request_def split: option.splits)
  with facts show ?thesis by simp
qed

text \<open>
  Claim C2 says that a \<^verbatim>\<open>List\<close> or \<^verbatim>\<open>Count\<close> whose parameters have a nil \<^verbatim>\<open>CustomerID\<close>
  sends a query without the key \<^verbatim>\<open>customer_id\<close>. After a \<^verbatim>\<open>Count\<close> that filtered by
  customer 7, the service's sling keeps those parameters, and a \<^verbatim>\<open>List\<close> whose
  \<^verbatim>\<open>CustomerID\<close> is nil sends \<^verbatim>\<open>customer_id=7\<close>.
\<close>

theorem List_after_Count_sends_the_stale_filter:
  "OrderListParams.CustomerID no_filter = None
   \<and> map_option (map req_query \<circ> wire)
        (run (answering ok_null) service0 0
           [Count_call (Some (no_filter\<lparr>OrderListParams.CustomerID := Some 7\<rparr>)),
            List_call (Some no_filter)] world1) =
      Some [[(''customer_id'', QText ''7'')], [(''customer_id'', QText ''7'')]]"
  by (simp add: run_defs sling_defs demo_defs reflect_defs text_defs)

text \<open>
  Claim C4 says that \<^verbatim>\<open>List\<close> sends \<^verbatim>\<open>GET orders/\<close> and \<^verbatim>\<open>New\<close> sends \<^verbatim>\<open>POST orders/\<close>.
  After one \<^verbatim>\<open>Count\<close> both go to \<^verbatim>\<open>orders/count\<close>: they copy the service's sling, whose
  path \<^verbatim>\<open>Count\<close> has changed.
\<close>

theorem List_and_New_after_Count_go_to_the_count_path:
  "map_option (map (\<lambda>q. (req_method q, req_url q)) \<circ> wire)
     (run (answering ok_null) service0 0
        [Count_call (Some no_filter), List_call (Some no_filter), New_call (Some empty_body)]
        world1) =
   Some [(''GET'', ''https://store.example/api/v2/orders/count''),
         (''GET'', ''https://store.example/api/v2/orders/count''),
         (''POST'', ''https://store.example/api/v2/orders/count'')]"
  by (simp add: run_defs sling_defs demo_defs reflect_defs)

subsection \<open>What omitempty does not omit\<close>

lemma Edit_always_sends_billing_address:
  assumes "OrderService_Edit E s ctx i (Some p) w = Some (res, w')"
    and "wire w' = wire w @ [req]"
  shows "\<exists>ms. req_body req = Some (JObj ms) \<and> ''billing_address'' \<in> fst ` set ms"
proof -
  from assms have "invoke E s ctx (Edit_call i (Some p)) w = Some (res, w')" by simp
  from invoke_sent [OF this assms(2)] obtain r w3 sl where
    prep: "prepare E s (Edit_call i (Some p))
             (w\<lparr>cells := cells w @ [zero_payload E (Edit_call i (Some p)), PAPIError (APIError [])]\<rparr>)
           = Some (r, w3)"
    and sl: "sling_at w3 r = Some sl" and rq: "Sling_Request sl = Some req" by blast
  from prepare_Edit_sling [OF prep] sl
  have "bodyProvider sl = Some (GPtr (Some (reflect_OrderEditParams E p)))" by auto
  from Sling_Request_body [OF rq this] obtain j where
    j: "marshal (GPtr (Some (reflect_OrderEditParams E p))) = Some j" and body: "req_body req = Some j"
    by blast
  then obtain ms where
    ms: "marshal_fields
      [Field ''customer_id'' True (uint32_ptr (OrderEditParams.CustomerID p)),
       Field ''status_id'' True (uint32_ptr (OrderEditParams.StatusID p)),
       Field ''ip_address'' True (GString (OrderEditParams.IPAddress p)),
       Field ''staff_notes'' True (GString (OrderEditParams.StaffNotes p)),
       Field ''customer_message'' True (GString (OrderEditParams.CustomerMessage p)),
       Field ''billing_address'' True (GStruct (addr_reflect E (OrderEditParams.BillingAddress p)))]
      = Some ms" and jm: "j = JObj ms"
    by (auto simp: reflect_OrderEditParams_def)
  have "''billing_address'' \<in> fst ` set ms"
    by (auto simp: marshal_fields_keys [OF ms])
  with body jm show ?thesis by simp
qed

text \<open>
  Claim C6 says that \<^verbatim>\<open>Edit\<close> sends only the fields the caller set, a zero-value
  billing address being absent from the body. \<^verbatim>\<open>BillingAddress\<close> is tagged
  \<^verbatim>\<open>omitempty\<close>, but it is a struct and a struct is never empty: \<^verbatim>\<open>Edit\<close> with every
  field unset sends a body that has \<^verbatim>\<open>billing_address\<close>.
\<close>

theorem Edit_of_nothing_sends_billing_address:
  "map_option (map req_body \<circ> wire)
     (run (answering ok_null) service0 0 [Edit_call 42 (Some no_edit)] world1) =
   Some [Some (JObj [(''billing_address'', JObj [])])]"
  by (simp add: run_defs sling_defs demo_defs reflect_defs text_defs)

text \<open>
  Claim C7 says that \<^verbatim>\<open>New\<close> omits \<^verbatim>\<open>customer_id\<close> and \<^verbatim>\<open>status_id\<close> from the body when the
  pointer is nil, so that unset differs from zero on the wire, and omits every
  optional field left at its zero value. The two tags have no \<^verbatim>\<open>omitempty\<close>: the body
  that \<^verbatim>\<open>New\<close> sends has both members, \<^verbatim>\<open>null\<close> for a nil pointer and the number for a
  pointer, 0 included, so unset does differ from zero. The members tagged
  \<^verbatim>\<open>omitempty\<close>, the four costs and the shipping addresses, are in the body exactly when
  the field is not zero (not empty).
\<close>

theorem New_sends_null_for_a_nil_pointer:
  assumes "OrderService_New E s ctx (Some b) w = Some (res, w')"
    and "wire w' = wire w @ [req]"
  shows "\<exists>ms. req_body req = Some (JObj ms)
     \<and> map_of ms ''customer_id'' =
         Some (case OrderBody.CustomerID b of None \<Rightarrow> JNull | Some u \<Rightarrow> JNum (NInt (int (unat u))))
     \<and> map_of ms ''status_id'' =
         Some (case OrderBody.StatusID b of None \<Rightarrow> JNull | Some u \<Rightarrow> JNum (NInt (int (unat u))))
     \<and> (''shipping_cost_inc_tax'' \<in> fst ` set ms \<longleftrightarrow> \<not> f32_is_zero (OrderBody.ShippingCostIncTax b))
     \<and> (''shipping_cost_ex_tax'' \<in> fst ` set ms \<longleftrightarrow> \<not> f32_is_zero (OrderBody.ShippingCostExTax b))
     \<and> (''handling_cost_inc_tax'' \<in> fst ` set ms \<longleftrightarrow> \<not> f32_is_zero (OrderBody.HandlingCostIncTax b))
     \<and> (''handling_cost_ex_tax'' \<in> fst ` set ms \<longleftrightarrow> \<not> f32_is_zero (OrderBody.HandlingCostExTax b))
     \<and> (''shipping_addresses'' \<in> fst ` set ms \<longleftrightarrow>
          ShippingAddresses b \<noteq> None \<and> ShippingAddresses b \<noteq> Some [])"
proof -
  from assms have "invoke E s ctx (New_call (Some b)) w = Some (res, w')" by simp
  from invoke_sent [OF this assms(2)] obtain r w3 sl where
    prep: "prepare E s (New_call (Some b))
             (w\<lparr>cells := cells w @ [zero_payload E (New_call (Some b)), PAPIError (APIError [])]\<rparr>)
           = Some (r, w3)"
    and sl: "sling_at w3 r = Some sl" and rq: "Sling_Request sl = Some req" by blast
  from prepare_New_sling [OF prep] sl
  have "bodyProvider sl = Some (GPtr (Some (reflect_OrderBody E b)))" by auto
  from Sling_Request_body [OF rq this] obtain j where
    j: "marshal (GPtr (Some (reflect_OrderBody E b))) = Some j" and body: "req_body req = Some j"
    by blast
  let ?fs = "[Field ''external_source'' False (GString (ExternalSource b)),
      Field ''customer_id'' False (uint32_ptr (OrderBody.CustomerID b)),
      Field ''status_id'' False (uint32_ptr (OrderBody.StatusID b)),
      Field ''billing_address'' False (GStruct (addr_reflect E (OrderBody.BillingAddress b))),
      Field ''products'' False (GSlice (map_option (map reflect_OrderProduct) (Products b))),
      Field ''shipping_cost_inc_tax'' True (GFloat32 (OrderBody.ShippingCostIncTax b)),
      Field ''shipping_cost_ex_tax'' True (GFloat32 (OrderBody.ShippingCostExTax b)),
      Field ''handling_cost_inc_tax'' True (GFloat32 (OrderBody.HandlingCostIncTax b)),
      Field ''handling_cost_ex_tax'' True (GFloat32 (OrderBody.HandlingCostExTax b)),
      Field ''shipping_addresses'' True
        (GSlice (map_option (map (\<lambda>a. GStruct (addr_reflect E a))) (ShippingAddresses b))),
      Field ''customer_message'' False (GString (OrderBody.CustomerMessage b)),
      Field ''staff_notes'' False (GString (OrderBody.StaffNotes b))]"
  from j obtain ms where ms: "marshal_fields ?fs = Some ms" and jm: "j = JObj ms"
    by (auto simp: reflect_OrderBody_def)
  note keys = marshal_fields_keys [OF ms]
  have cid: "map_of ms ''customer_id'' =
      Some (case OrderBody.CustomerID b of None \<Rightarrow> JNull | Some u \<Rightarrow> JNum (NInt (int (unat u))))"
    using marshal_fields_value [OF ms, of "''customer_id''" False "uint32_ptr (OrderBody.CustomerID b)"]
    by (auto simp: uint32_ptr_def split: option.splits)
  have sid: "map_of ms ''status_id'' =
      Some (case OrderBody.StatusID b of None \<Rightarrow> JNull | Some u \<Rightarrow> JNum (NInt (int (unat u))))"
    using marshal_fields_value [OF ms, of "''status_id''" False "uint32_ptr (OrderBody.StatusID b)"]
    by (auto simp: uint32_ptr_def split: option.splits)
  have k1: "''shipping_cost_inc_tax'' \<in> fst ` set ms \<longleftrightarrow> \<not> f32_is_zero (OrderBody.ShippingCostIncTax b)"
    by (auto simp: keys)
  have k2: "''shipping_cost_ex_tax'' \<in> fst ` set ms \<longleftrightarrow> \<not> f32_is_zero (OrderBody.ShippingCostExTax b)"
    by (auto simp: keys)
  have k3: "''handling_cost_inc_tax'' \<in> fst ` set ms \<longleftrightarrow> \<not> f32_is_zero (OrderBody.HandlingCostIncTax b)"
    by (auto simp: keys)
  have k4: "''handling_cost_ex_tax'' \<in> fst ` set ms \<longleftrightarrow> \<not> f32_is_zero (OrderBody.HandlingCostExTax b)"
    by (auto simp: keys)
  have k5: "''shipping_addresses'' \<in> fst ` set ms \<longleftrightarrow>
          ShippingAddresses b \<noteq> None \<and> ShippingAddresses b \<noteq> Some []"
    by (cases "ShippingAddresses b") (auto simp: keys)
  from body jm cid sid k1 k2 k3 k4 k5 show ?thesis by blast
qed


theorem New_sends_null_for_a_nil_pointer_witness:
  "\<exists>res w' req ms.
     OrderService_New (answering ok_null) service0 0
       (Some (empty_body\<lparr>OrderBody.CustomerID := Some 0\<rparr>)) world1 = Some (res, w')
   \<and> wire w' = wire world1 @ [req]
   \<and> req_body req = Some (JObj ms)
   \<and> map_of ms ''customer_id'' = Some (JNum (NInt 0))
   \<and> map_of ms ''status_id'' = Some JNull
   \<and> ''shipping_cost_inc_tax'' \<notin> fst ` set ms
   \<and> ''shipping_addresses'' \<notin> fst ` set ms"
proof -
  have "\<exists>res w' req.
     OrderService_New (answering ok_null) service0 0
       (Some (empty_body\<lparr>OrderBody.CustomerID := Some 0\<rparr>)) world1 = Some (res, w')
     \<and> wire w' = wire world1 @ [req]"
    by (simp add: run_defs sling_defs demo_defs reflect_defs)
  then obtain res w' req where
    h1: "OrderService_New (answering ok_null) service0 0
       (Some (empty_body\<lparr>OrderBody.CustomerID := Some 0\<rparr>)) world1 = Some (res, w')"
    and h2: "wire w' = wire world1 @ [req]" by blast
  from New_sends_null_for_a_nil_pointer [OF h1 h2] obtain ms where
    "req_body req = Some (JObj ms)"
    "map_of ms ''customer_id'' = Some (JNum (NInt 0))"
    "map_of ms ''status_id'' = Some JNull"
    "''shipping_cost_inc_tax'' \<notin> fst ` set ms"
    "''shipping_addresses'' \<notin> fst ` set ms"
    by (auto simp: empty_body_def f32_is_zero_def)
  with h1 h2 show ?thesis by blast
qed

text \<open>
  The counterexample to C7 as stated: \<^verbatim>\<open>New\<close> with an \<^verbatim>\<open>OrderBody\<close> whose fields are all
  unset sends \<^verbatim>\<open>customer_id\<close> and \<^verbatim>\<open>status_id\<close>, as \<^verbatim>\<open>null\<close>.
\<close>

theorem New_of_a_nil_customer_sends_the_key:
  "OrderBody.CustomerID empty_body = None
   \<and> map_option (map req_body \<circ> wire)
        (run (answering ok_null) service0 0 [New_call (Some empty_body)] world1) =
      Some [Some (JObj [(''external_source'', JStr []), (''customer_id'', JNull),
                        (''status_id'', JNull), (''billing_address'', JObj []),
                        (''products'', JNull), (''customer_message'', JStr []),
                        (''staff_notes'', JStr [])])]"
  by (simp add: run_defs sling_defs demo_defs reflect_defs)

subsection \<open>The tag of CouponDiscount\<close>

lemma monetary_fields_are_stored_as_sent:
  "Order.HandlingCostExTax (fst (Unmarshal_Order E (JObj (ms @ [(''handling_cost_ex_tax'', JStr s)])) r)) = s"
  "Order.HandlingCostIncTax (fst (Unmarshal_Order E (JObj (ms @ [(''handling_cost_inc_tax'', JStr s)])) r)) = s"
  "HandlingCostTax (fst (Unmarshal_Order E (JObj (ms @ [(''handling_cost_tax'', JStr s)])) r)) = s"
  "Order.ShippingCostExTax (fst (Unmarshal_Order E (JObj (ms @ [(''shipping_cost_ex_tax'', JStr s)])) r)) = s"
  "Order.ShippingCostIncTax (fst (Unmarshal_Order E (JObj (ms @ [(''shipping_cost_inc_tax'', JStr s)])) r)) = s"
  "ShippingCostTax (fst (Unmarshal_Order E (JObj (ms @ [(''shipping_cost_tax'', JStr s)])) r)) = s"
  "SubTotalExTax (fst (Unmarshal_Order E (JObj (ms @ [(''subtotal_ex_tax'', JStr s)])) r)) = s"
  "SubTotalIncTax (fst (Unmarshal_Order E (JObj (ms @ [(''subtotal_inc_tax'', JStr s)])) r)) = s"
  "SubTotalTax (fst (Unmarshal_Order E (JObj (ms @ [(''subtotal_tax'', JStr s)])) r)) = s"
  "TotalExTax (fst (Unmarshal_Order E (JObj (ms @ [(''total_ex_tax'', JStr s)])) r)) = s"
  "TotalIncTax (fst (Unmarshal_Order E (JObj (ms @ [(''total_inc_tax'', JStr s)])) r)) = s"
  "TotalTax (fst (Unmarshal_Order E (JObj (ms @ [(''total_tax'', JStr s)])) r)) = s"
  "BaseShippingCost (fst (Unmarshal_Order E (JObj (ms @ [(''base_shipping_cost'', JStr s)])) r)) = s"
  "DiscountAmount (fst (Unmarshal_Order E (JObj (ms @ [(''discount_amount'', JStr s)])) r)) = s"
  by (simp_all add: decode_members_append find_field_def Order_fields_def)

lemma coupon_discount_selects_no_field:
  "find_field (Order_fields :: (string \<times> 'a Order_field) list) ''coupon_discount'' = None"
  by (simp add: find_field_def Order_fields_def upper_ascii_def)


text \<open>
  Claim C8 says that every monetary field of a decoded \<^verbatim>\<open>Order\<close>, the coupon discount
  among them, holds the string the API sent. The tag of \<^verbatim>\<open>CouponDiscount\<close> is
  \<^verbatim>\<open>counpon_discount\<close>: of a response with \<^verbatim>\<open>discount_amount\<close> and \<^verbatim>\<open>coupon_discount\<close>
  the first is stored as sent and the second is dropped.
\<close>

theorem coupon_discount_is_dropped:
  "Unmarshal_Order (answering ok_null)
     (JObj [(''discount_amount'', JStr ''1.5000''), (''coupon_discount'', JStr ''5.0000'')])
     (new_Order (answering ok_null)) =
   ((new_Order (answering ok_null))\<lparr>DiscountAmount := ''1.5000''\<rparr>, True)"
  by (simp add: find_field_def Order_fields_def new_Order_def upper_ascii_def)

text \<open>
  Claim C10: \<^verbatim>\<open>CouponDiscount\<close> is read from the member \<^verbatim>\<open>counpon_discount\<close>, and a
  response that has the correctly spelled \<^verbatim>\<open>coupon_discount\<close> leaves it empty. The
  field takes the string of a member \<^verbatim>\<open>counpon_discount\<close>; decoding a response none of
  whose member names equals \<^verbatim>\<open>counpon_discount\<close> under case folding leaves the field
  of a new \<^verbatim>\<open>Order\<close> empty; and \<^verbatim>\<open>coupon_discount\<close> is not such a name.
\<close>

theorem CouponDiscount_is_read_from_the_misspelled_key:
  "CouponDiscount (fst (Unmarshal_Order E (JObj (ms @ [(''counpon_discount'', JStr s)])) r)) = s
   \<and> ((\<forall>k \<in> fst ` set ms. foldName k \<noteq> foldName ''counpon_discount'')
        \<longrightarrow> CouponDiscount (fst (Unmarshal_Order E (JObj ms) (new_Order E))) = [])
   \<and> foldName ''coupon_discount'' \<noteq> foldName ''counpon_discount''"
proof (intro conjI impI)
  show "CouponDiscount (fst (Unmarshal_Order E (JObj (ms @ [(''counpon_discount'', JStr s)])) r)) = s"
    by (simp add: decode_members_append counpon_find)
next
  assume "\<forall>k \<in> fst ` set ms. foldName k \<noteq> foldName ''counpon_discount''"
  then show "CouponDiscount (fst (Unmarshal_Order E (JObj ms) (new_Order E))) = []"
    by (simp add: decode_members_keeps_CouponDiscount new_Order_def)
next
  show "foldName ''coupon_discount'' \<noteq> foldName ''counpon_discount''"
    by (simp add: upper_ascii_def)
qed

theorem CouponDiscount_is_read_from_the_misspelled_key_witness:
  "CouponDiscount (fst (Unmarshal_Order (answering ok_null)
       (JObj ([(''coupon_discount'', JStr ''5.0000'')] @ [(''counpon_discount'', JStr ''2.0000'')]))
       (new_Order (answering ok_null)))) = ''2.0000''
   \<and> foldName ''coupon_discount'' \<noteq> foldName ''counpon_discount''
   \<and> CouponDiscount (fst (Unmarshal_Order (answering ok_null)
         (JObj [(''coupon_discount'', JStr ''5.0000'')]) (new_Order (answering ok_null)))) = []"
proof -
  note t = CouponDiscount_is_read_from_the_misspelled_key
         [of "answering ok_null" "[(''coupon_discount'', JStr ''5.0000'')]" "''2.0000''"
             "new_Order (answering ok_null)"]
  from t have c2: "foldName ''coupon_discount'' \<noteq> foldName ''counpon_discount''"
    by (rule conjunct2 [OF conjunct2])
  then have h: "\<forall>k \<in> fst ` set [(''coupon_discount'', JStr ''5.0000'' :: string json)].
         foldName k \<noteq> foldName ''counpon_discount''"
    by simp
  from t have c1: "CouponDiscount (fst (Unmarshal_Order (answering ok_null)
       (JObj ([(''coupon_discount'', JStr ''5.0000'')] @ [(''counpon_discount'', JStr ''2.0000'')]))
       (new_Order (answering ok_null)))) = ''2.0000''"
    by (rule conjunct1)
  from t have "(\<forall>k \<in> fst ` set [(''coupon_discount'', JStr ''5.0000'' :: string json)].
         foldName k \<noteq> foldName ''counpon_discount'')
      \<longrightarrow> CouponDiscount (fst (Unmarshal_Order (answering ok_null)
         (JObj [(''coupon_discount'', JStr ''5.0000'')]) (new_Order (answering ok_null)))) = []"
    by (rule conjunct1 [OF conjunct2])
  from this h have c3: "CouponDiscount (fst (Unmarshal_Order (answering ok_null)
         (JObj [(''coupon_discount'', JStr ''5.0000'')]) (new_Order (answering ok_null)))) = []"
    by (rule mp)
  from c1 c2 c3 show ?thesis by (intro conjI)
qed

text \<open>
  The counterexample to C10 as stated: a response that has \<^verbatim>\<open>coupon_discount\<close> and
  \<^verbatim>\<open>counpon_discount\<close> both does not leave the field empty.
\<close>

theorem coupon_discount_beside_the_misspelled_key:
  "CouponDiscount (fst (Unmarshal_Order (answering ok_null)
       (JObj [(''coupon_discount'', JStr ''5.0000''), (''counpon_discount'', JStr ''2.0000'')])
       (new_Order (answering ok_null)))) = ''2.0000''"
  by (simp add: find_field_def Order_fields_def new_Order_def upper_ascii_def)


subsection \<open>What every call returns\<close>

text \<open>
  Claim C9: every call returns a payload pointer that is not nil and points to a
  freshly allocated value, also when the error is not nil. A call on a service whose
  sling pointer is not nil returns; its first result is the pointer \<^verbatim>\<open>new\<close> gave, to an
  address the store did not have before the call; every value the store had is
  unchanged, and the new one is of the type the method declares.
\<close>

theorem invoke_returns_fresh_pointer:
  assumes "sling_at w (sling s) = Some sl"
  shows "\<exists>resp err w'.
           invoke E s ctx c w = Some ((Ref (length (cells w)), resp, err), w')
         \<and> take (length (cells w)) (cells w') = cells w
         \<and> (\<exists>v. cell_at w' (Ref (length (cells w))) = Some v
                \<and> payload_kind v = payload_kind (zero_payload E c))"
  unfolding invoke_call_with
proof (rule call_with_returns)
  fix v :: "'a world" assume "slings v = slings w"
  with assms have "sling_at v (sling s) = Some sl"
    by (auto simp: sling_at_def split: ref.splits)
  then show "\<exists>r v'. prepare E s c v = Some (r, v')" by (rule prepare_returns)
next
  fix v r v' assume "prepare E s c v = Some (r, v')"
  then show "cells v' = cells v \<and> wire v' = wire v \<and> sling_at v' r \<noteq> None"
    by (rule prepare_SomeD)
qed

text \<open>The witness is a \<^verbatim>\<open>List\<close> whose request fails in the transport.\<close>

theorem invoke_returns_fresh_pointer_witness:
  "sling_at world1 (sling service0) =
     Some (base_sling\<lparr>rawURL := ''https://store.example/api/v2/orders/''\<rparr>)
   \<and> (\<exists>resp err w'.
         invoke (answering (Inl ''connection refused'')) service0 0 (List_call None) world1
           = Some ((Ref (length (cells world1)), resp, err), w')
       \<and> take (length (cells world1)) (cells w') = cells world1
       \<and> (\<exists>v. cell_at w' (Ref (length (cells world1))) = Some v
              \<and> payload_kind v = payload_kind (zero_payload (answering (Inl ''connection refused'')) (List_call None))))"
proof -
  have h: "sling_at world1 (sling service0) =
     Some (base_sling\<lparr>rawURL := ''https://store.example/api/v2/orders/''\<rparr>)"
    by (simp add: sling_at_def demo_defs)
  from invoke_returns_fresh_pointer [OF h] h show ?thesis by blast
qed

text \<open>
  Claim C3: the error a call returns is one selection between the transport-level
  error and the API-error payload. A call on a service whose sling pointer is not nil
  returns; it ends with \<^verbatim>\<open>performRequest\<close> on the sling its expression built and on the
  two destinations it allocated; the error of \<^verbatim>\<open>performRequest\<close> is never an API error;
  the call returns that error when there is one, else the API error when the payload
  is not empty, else nil.
\<close>

theorem invoke_error_is_selected:
  assumes "sling_at w (sling s) = Some sl"
  shows "\<exists>p resp err w' r w3 terr api.
           invoke E s ctx c w = Some ((p, resp, err), w')
         \<and> prepare E s c (w\<lparr>cells := cells w @ [zero_payload E c, PAPIError (APIError [])]\<rparr>)
             = Some (r, w3)
         \<and> performRequest E ctx r (httpClient s) p (Ref (Suc (length (cells w)))) w3
             = Some ((resp, terr), w')
         \<and> apiError_at w' (Ref (Suc (length (cells w)))) = Some api
         \<and> (\<forall>a. terr \<noteq> Some (APIFailure a))
         \<and> (\<forall>t. terr = Some t \<longrightarrow> err = Some t)
         \<and> (terr = None \<and> \<not> Empty api \<longrightarrow> err = Some (APIFailure api))
         \<and> (terr = None \<and> Empty api \<longrightarrow> err = None)"
proof -
  have "\<exists>resp err w'.
           call_with E s ctx (zero_payload E c) (prepare E s c) w
             = Some ((Ref (length (cells w)), resp, err), w')
         \<and> take (length (cells w)) (cells w') = cells w
         \<and> (\<exists>v. cell_at w' (Ref (length (cells w))) = Some v
                \<and> payload_kind v = payload_kind (zero_payload E c))"
  proof (rule call_with_returns)
    fix v :: "'a world" assume "slings v = slings w"
    with assms have "sling_at v (sling s) = Some sl"
      by (auto simp: sling_at_def split: ref.splits)
    then show "\<exists>r v'. prepare E s c v = Some (r, v')" by (rule prepare_returns)
  next
    fix v r v' assume "prepare E s c v = Some (r, v')"
    then show "cells v' = cells v \<and> wire v' = wire v \<and> sling_at v' r \<noteq> None"
      by (rule prepare_SomeD)
  qed
  then obtain resp err w' where
    cw: "call_with E s ctx (zero_payload E c) (prepare E s c) w
           = Some ((Ref (length (cells w)), resp, err), w')" by blast
  from call_with_SomeD [OF cw] obtain r w3 terr api where
    prep: "prepare E s c (w\<lparr>cells := cells w @ [zero_payload E c, PAPIError (APIError [])]\<rparr>)
             = Some (r, w3)"
    and pr: "performRequest E ctx r (httpClient s) (Ref (length (cells w)))
               (Ref (Suc (length (cells w)))) w3 = Some ((resp, terr), w')"
    and a: "apiError_at w' (Ref (Suc (length (cells w)))) = Some api"
    and e: "err = relevantError terr api" by blast
  from pr have na: "\<forall>a. terr \<noteq> Some (APIFailure a)"
    using performRequest_SomeD by blast
  have "invoke E s ctx c w = Some ((Ref (length (cells w)), resp, err), w')
         \<and> prepare E s c (w\<lparr>cells := cells w @ [zero_payload E c, PAPIError (APIError [])]\<rparr>)
             = Some (r, w3)
         \<and> performRequest E ctx r (httpClient s) (Ref (length (cells w)))
              (Ref (Suc (length (cells w)))) w3 = Some ((resp, terr), w')
         \<and> apiError_at w' (Ref (Suc (length (cells w)))) = Some api
         \<and> (\<forall>a. terr \<noteq> Some (APIFailure a))
         \<and> (\<forall>t. terr = Some t \<longrightarrow> err = Some t)
         \<and> (terr = None \<and> \<not> Empty api \<longrightarrow> err = Some (APIFailure api))
         \<and> (terr = None \<and> Empty api \<longrightarrow> err = None)"
    using cw prep pr a e na
    by (cases terr) (simp_all add: relevantError_def invoke_call_with)
  then show ?thesis by blast
qed

text \<open>The witness is an \<^verbatim>\<open>Edit\<close> that the API answers with 404 and an error body.\<close>

theorem invoke_error_is_selected_witness:
  "sling_at world1 (sling service0) =
     Some (base_sling\<lparr>rawURL := ''https://store.example/api/v2/orders/''\<rparr>)
   \<and> (\<exists>p resp w' r w3 api.
         invoke (answering not_found) service0 0 (Edit_call 42 (Some no_edit)) world1
           = Some ((p, resp, Some (APIFailure api)), w')
       \<and> performRequest (answering not_found) 0 r (httpClient service0) p
             (Ref (Suc (length (cells world1)))) w3 = Some ((resp, None), w')
       \<and> apiError_at w' (Ref (Suc (length (cells world1)))) = Some api
       \<and> \<not> Empty api)"
proof -
  let ?E = "answering not_found"
  let ?c = "Edit_call 42 (Some no_edit)"
  let ?X = "APIError [(''status'', JNum ''404''), (''message'', JStr ''Not found'')]"
  have h: "sling_at world1 (sling service0) =
     Some (base_sling\<lparr>rawURL := ''https://store.example/api/v2/orders/''\<rparr>)"
    by (simp add: sling_at_def demo_defs)
  have ev: "\<exists>p resp w'. invoke ?E service0 0 ?c world1 = Some ((p, resp, Some (APIFailure ?X)), w')"
    by (simp add: run_defs sling_defs demo_defs reflect_defs text_defs)
  from invoke_error_is_selected [OF h, of ?E 0 ?c] obtain p resp err w' r w3 terr api where
    i: "invoke ?E service0 0 ?c world1 = Some ((p, resp, err), w')"
    and pr: "performRequest ?E 0 r (httpClient service0) p
           (Ref (Suc (length (cells world1)))) w3 = Some ((resp, terr), w')"
    and a: "apiError_at w' (Ref (Suc (length (cells world1)))) = Some api"
    and na: "\<forall>a. terr \<noteq> Some (APIFailure a)"
    and t: "\<forall>t. terr = Some t \<longrightarrow> err = Some t"
    and f: "terr = None \<and> \<not> Empty api \<longrightarrow> err = Some (APIFailure api)"
    and e: "terr = None \<and> Empty api \<longrightarrow> err = None"
    by blast
  from ev i have err: "err = Some (APIFailure ?X)" by auto
  from na t err have tn: "terr = None" by (cases terr) auto
  with e err have ne: "\<not> Empty api" by auto
  with tn f have "err = Some (APIFailure api)" by simp
  with h i pr a tn ne show ?thesis by blast
qed

text \<open>
  Claim C5: when the API answers with a status outside 200..299 and a structured
  error body and there is no transport-level error, the call returns the API error,
  and the payload it returns is still the zero value. When the request of the call
  can be built and the client answers it with such a response, the call returns that
  response and the API error made of its body, the payload is the zero value, and
  the request was sent.
\<close>

theorem api_error_is_returned:
  assumes built: "request_of E s c w = Some req"
    and answer: "transport E (httpClient s) ctx (wire w @ [req]) = Inr resp"
    and status: "\<not> (200 \<le> StatusCode resp \<and> StatusCode resp \<le> 299)"
    and body: "resp_body resp = Some (JObj ms)"
    and structured: "ms \<noteq> []"
  shows "\<exists>w'. invoke E s ctx c w =
            Some ((Ref (length (cells w)), Some resp, Some (APIFailure (APIError ms))), w')
          \<and> cell_at w' (Ref (length (cells w))) = Some (zero_payload E c)
          \<and> wire w' = wire w @ [req]"
proof -
  let ?n = "length (cells w)"
  let ?x = "cells w @ [zero_payload E c, PAPIError (APIError [])]"
  from built obtain r w1 sl where
    prep: "prepare E s c w = Some (r, w1)"
    and sl: "sling_at w1 r = Some sl" and rq: "Sling_Request sl = Some req"
    by (auto simp: request_of_def split: option.splits)
  from prepare_SomeD [OF prep] have keep: "cells w1 = cells w" "wire w1 = wire w" by simp_all
  let ?w3 = "w1\<lparr>cells := ?x\<rparr>"
  have prep3: "prepare E s c (w\<lparr>cells := ?x\<rparr>) = Some (r, ?w3)"
    by (rule prepare_cells_update [OF prep])
  have sl3: "sling_at ?w3 r = Some sl" using sl by (simp add: sling_at_cells_update)
  let ?w' = "w1\<lparr>cells := cells w @ [zero_payload E c, PAPIError (APIError ms)],
                wire := wire w @ [req]\<rparr>"
  have pr: "performRequest E ctx r (httpClient s) (Ref ?n) (Ref (Suc ?n)) ?w3
              = Some ((Some resp, None), ?w')"
  proof -
    have dest: "(if 200 \<le> StatusCode resp \<and> StatusCode resp \<le> 299 then Ref ?n else Ref (Suc ?n))
        = Ref (Suc ?n)"
      using status by simp
    show ?thesis
      using sl3 rq answer body
      by (simp add: performRequest_def Let_def keep decode_into_def cell_at_def nth_append
          list_update_append dest)
  qed
  have "invoke E s ctx c w =
          Some ((Ref ?n, Some resp, Some (APIFailure (APIError ms))), ?w')"
    using prep3 pr structured
    by (simp add: invoke_call_with call_with_def new_cell_def finish_def apiError_at_def
        cell_at_def relevantError_def nth_append)
  moreover have "cell_at ?w' (Ref ?n) = Some (zero_payload E c)"
    by (simp add: cell_at_def nth_append)
  ultimately show ?thesis by simp
qed


text \<open>The witness is a \<^verbatim>\<open>New\<close> that the API answers with 404 and an error body.\<close>

theorem api_error_is_returned_witness:
  "request_of (answering not_found) service0 (New_call (Some empty_body)) world1 =
     Some \<lparr>req_method = ''POST'', req_url = ''https://store.example/api/v2/orders/'',
           req_query = [], req_header = [(''Content-Type'', [''application/json''])],
           req_body = Some (JObj [(''external_source'', JStr []), (''customer_id'', JNull),
                        (''status_id'', JNull), (''billing_address'', JObj []),
                        (''products'', JNull), (''customer_message'', JStr []),
                        (''staff_notes'', JStr [])])\<rparr>
   \<and> (\<exists>w'. invoke (answering not_found) service0 0 (New_call (Some empty_body)) world1 =
            Some ((Ref 0,
                   Some \<lparr>StatusCode = 404,
                         resp_body = Some (JObj [(''status'', JNum ''404''), (''message'', JStr ''Not found'')])\<rparr>,
                   Some (APIFailure (APIError [(''status'', JNum ''404''), (''message'', JStr ''Not found'')]))),
                  w')
          \<and> cell_at w' (Ref 0) = Some (POrder (new_Order (answering not_found))))"
proof -
  let ?req = "\<lparr>req_method = ''POST'', req_url = ''https://store.example/api/v2/orders/'',
           req_query = [], req_header = [(''Content-Type'', [''application/json''])],
           req_body = Some (JObj [(''external_source'', JStr []), (''customer_id'', JNull),
                        (''status_id'', JNull), (''billing_address'', JObj []),
                        (''products'', JNull), (''customer_message'', JStr []),
                        (''staff_notes'', JStr [])])\<rparr>"
  let ?resp = "\<lparr>StatusCode = 404,
      resp_body = Some (JObj [(''status'', JNum ''404''), (''message'', JStr ''Not found'')])\<rparr>"
  have built: "request_of (answering not_found) service0 (New_call (Some empty_body)) world1 = Some ?req"
    by (simp add: request_of_def sling_defs Sling_Request_def body_of_def demo_defs reflect_defs)
  have answer: "transport (answering not_found) (httpClient service0) 0 (wire world1 @ [?req]) = Inr ?resp"
    by (simp add: demo_defs)
  have "\<exists>w'. invoke (answering not_found) service0 0 (New_call (Some empty_body)) world1 =
            Some ((Ref (length (cells world1)), Some ?resp,
                   Some (APIFailure (APIError [(''status'', JNum ''404''), (''message'', JStr ''Not found'')]))), w')
          \<and> cell_at w' (Ref (length (cells world1))) =
              Some (zero_payload (answering not_found) (New_call (Some empty_body)))
          \<and> wire w' = wire world1 @ [?req]"
    by (rule api_error_is_returned [OF built answer]) simp_all
  then have "\<exists>w'. invoke (answering not_found) service0 0 (New_call (Some empty_body)) world1 =
            Some ((Ref 0, Some ?resp,
                   Some (APIFailure (APIError [(''status'', JNum ''404''), (''message'', JStr ''Not found'')]))), w')
          \<and> cell_at w' (Ref 0) = Some (POrder (new_Order (answering not_found)))"
    by (auto simp: world1_def)
  with built show ?thesis by (intro conjI)
qed

end
